theory Spec2Isabelle
  imports Main "HOL-Library.DAList"
begin

section \<open>The in-memory store of the case manager\<close>

text \<open>
  The development embeds \<^verbatim>\<open>server/storage.ts\<close> (class \<^verbatim>\<open>MemStorage\<close>), the route
  handlers of \<^verbatim>\<open>server/routes.ts\<close> for the minutes upload and for creating and updating
  a payment, and the two eligibility filters of the client: that of the hearing form and
  that of the hearings page.

  Conventions of the embedding.
  \<^item> A JavaScript \<^verbatim>\<open>Map<number, T>\<close> is an association list with distinct keys
    (\<open>('k, 'v) alist\<close>): \<^verbatim>\<open>set\<close> on an existing key replaces the value in place, on a
    new key appends, so that \<^verbatim>\<open>values()\<close> lists the entries in insertion order.
  \<^item> Numbers that are identifiers or counters are \<open>int\<close> (exact below \<open>2^53\<close>, which no
    counter of an in-memory store reaches). A \<^verbatim>\<open>Date\<close> kept in an entity is its time
    value, the milliseconds since the epoch, an \<open>int\<close>; \<^verbatim>\<open>new Date()\<close> is the parameter
    \<open>now\<close> of the operation. The financial summary does calendar arithmetic on
    \<^verbatim>\<open>new Date()\<close>; there \<open>now\<close> is a \<^verbatim>\<open>Date\<close> object (section Dates).
  \<^item> The date of a hearing is kept as the ISO string that the seed data and the form
    supply; no operation modelled here looks into it.
  \<^item> Amounts are doubles in the source. They are only copied and added, so they are a
    type parameter \<open>'n\<close>; the summary needs \<open>0\<close> and \<open>+\<close> on it and nothing else.
  \<^item> A property that the insert schema lets the caller omit (a column with a default or
    a nullable column) has type \<open>'a option\<close> in the entity: the store fills in no
    default, so the property may be missing (\<open>None\<close> stands for \<^verbatim>\<open>undefined\<close> and
    \<^verbatim>\<open>null\<close> alike).
  \<^item> A \<^verbatim>\<open>Partial<T>\<close> has every property of \<open>T\<close> optional: \<open>None\<close> is an absent
    property, \<open>Some v\<close> a present one. (A property explicitly set to
    \<^verbatim>\<open>undefined\<close> cannot come out of a JSON body and is not modelled.)
  \<^item> Hearing objects are mutated in place by the payment operations, so the map of
    hearings holds references into a heap of hearing objects. All other entities are
    never mutated after they are built and are stored by value.
  \<^item> Every method is \<^verbatim>\<open>async\<close> but awaits nothing; a route handler is taken as one
    uninterrupted sequence of store calls.
\<close>

subsection \<open>Maps\<close>

definition Map_get :: "('k, 'v) alist \<Rightarrow> 'k \<Rightarrow> 'v option" where
  "Map_get m k = DAList.lookup m k"

definition Map_set :: "('k, 'v) alist \<Rightarrow> 'k \<Rightarrow> 'v \<Rightarrow> ('k, 'v) alist" where
  "Map_set m k v = DAList.update k v m"

text \<open>\<^verbatim>\<open>Map.prototype.delete\<close> returns whether the key was present.\<close>

definition Map_delete :: "('k, 'v) alist \<Rightarrow> 'k \<Rightarrow> bool \<times> ('k, 'v) alist" where
  "Map_delete m k = (DAList.lookup m k \<noteq> None, DAList.delete k m)"

definition Map_keys :: "('k, 'v) alist \<Rightarrow> 'k list" where
  "Map_keys m = map fst (DAList.impl_of m)"

definition Map_values :: "('k, 'v) alist \<Rightarrow> 'v list" where
  "Map_values m = map snd (DAList.impl_of m)"

text \<open>\<^verbatim>\<open>{ ...existing, ...partial }\<close>, one property at a time.\<close>

definition spread :: "'a \<Rightarrow> 'a option \<Rightarrow> 'a" where
  "spread old p = (case p of None \<Rightarrow> old | Some v \<Rightarrow> v)"

definition spreadOpt :: "'a option \<Rightarrow> 'a option \<Rightarrow> 'a option" where
  "spreadOpt old p = (case p of None \<Rightarrow> old | Some v \<Rightarrow> Some v)"

subsection \<open>Entities (\<^verbatim>\<open>shared/schema.ts\<close>)\<close>

type_synonym timestamp = int
type_synonym ref = nat

record User =
  user_id :: int
  user_username :: string
  user_password :: string
  user_name :: string
  user_email :: string
  user_role :: "string option"

record InsertUser =
  iu_username :: string
  iu_password :: string
  iu_name :: string
  iu_email :: string
  iu_role :: "string option"

record Professional =
  prof_id :: int
  prof_name :: string
  prof_email :: string
  prof_phone :: string
  prof_type :: string
  prof_specialization :: string
  prof_jurisdictions :: "string list"
  prof_userId :: "int option"
  prof_active :: "bool option"

record InsertProfessional =
  ip_name :: string
  ip_email :: string
  ip_phone :: string
  ip_type :: string
  ip_specialization :: string
  ip_jurisdictions :: "string list"
  ip_userId :: "int option"
  ip_active :: "bool option"

record PartialProfessional =
  pp_id :: "int option"
  pp_name :: "string option"
  pp_email :: "string option"
  pp_phone :: "string option"
  pp_type :: "string option"
  pp_specialization :: "string option"
  pp_jurisdictions :: "string list option"
  pp_userId :: "int option option"
  pp_active :: "bool option"

record Jurisdiction =
  jur_id :: int
  jur_name :: string
  jur_state :: string
  jur_city :: string
  jur_address :: string

record InsertJurisdiction =
  ij_name :: string
  ij_state :: string
  ij_city :: string
  ij_address :: string

record PartialJurisdiction =
  pj_id :: "int option"
  pj_name :: "string option"
  pj_state :: "string option"
  pj_city :: "string option"
  pj_address :: "string option"

record 'n Hearing =
  hear_id :: int
  hear_processNumber :: string
  hear_jurisdictionId :: int
  hear_date :: string
  hear_time :: string
  hear_type :: string
  hear_area :: string
  hear_professionalId :: "int option"
  hear_status :: "string option"
  hear_notes :: "string option"
  hear_minutesUploaded :: bool
  hear_minutesUrl :: "string option"
  hear_paymentStatus :: "string option"
  hear_paymentAmount :: "'n option"
  hear_createdAt :: timestamp

record InsertHearing =
  ih_processNumber :: string
  ih_jurisdictionId :: int
  ih_date :: string
  ih_time :: string
  ih_type :: string
  ih_area :: string
  ih_professionalId :: "int option"
  ih_status :: "string option"
  ih_notes :: "string option"

record 'n PartialHearing =
  ph_id :: "int option"
  ph_processNumber :: "string option"
  ph_jurisdictionId :: "int option"
  ph_date :: "string option"
  ph_time :: "string option"
  ph_type :: "string option"
  ph_area :: "string option"
  ph_professionalId :: "int option option"
  ph_status :: "string option"
  ph_notes :: "string option option"
  ph_minutesUploaded :: "bool option"
  ph_minutesUrl :: "string option option"
  ph_paymentStatus :: "string option"
  ph_paymentAmount :: "'n option option"
  ph_createdAt :: "timestamp option"

record 'n Payment =
  pay_id :: int
  pay_hearingId :: int
  pay_professionalId :: int
  pay_amount :: 'n
  pay_status :: "string option"
  pay_paymentDate :: "timestamp option"
  pay_notes :: "string option"
  pay_createdAt :: timestamp

record 'n InsertPayment =
  ipay_hearingId :: int
  ipay_professionalId :: int
  ipay_amount :: 'n
  ipay_status :: "string option"
  ipay_paymentDate :: "timestamp option"
  ipay_notes :: "string option"

record 'n PartialPayment =
  ppay_id :: "int option"
  ppay_hearingId :: "int option"
  ppay_professionalId :: "int option"
  ppay_amount :: "'n option"
  ppay_status :: "string option"
  ppay_paymentDate :: "timestamp option option"
  ppay_notes :: "string option option"
  ppay_createdAt :: "timestamp option"

record Task =
  task_id :: int
  task_title :: string
  task_description :: string
  task_status :: "string option"
  task_type :: string
  task_relatedId :: "int option"
  task_dueDate :: "timestamp option"
  task_createdAt :: timestamp

record InsertTask =
  it_title :: string
  it_description :: string
  it_status :: "string option"
  it_type :: string
  it_relatedId :: "int option"
  it_dueDate :: "timestamp option"

record PartialTask =
  pt_id :: "int option"
  pt_title :: "string option"
  pt_description :: "string option"
  pt_status :: "string option"
  pt_type :: "string option"
  pt_relatedId :: "int option option"
  pt_dueDate :: "timestamp option option"
  pt_createdAt :: "timestamp option"

subsection \<open>The store (\<^verbatim>\<open>class MemStorage\<close>)\<close>

record 'n MemStorage =
  users :: "(int, User) alist"
  professionals :: "(int, Professional) alist"
  jurisdictions :: "(int, Jurisdiction) alist"
  hearings :: "(int, ref) alist"
  hearingObjects :: "ref \<Rightarrow> 'n Hearing"
  payments :: "(int, 'n Payment) alist"
  tasks :: "(int, Task) alist"
  userIdCounter :: int
  professionalIdCounter :: int
  jurisdictionIdCounter :: int
  hearingIdCounter :: int
  paymentIdCounter :: int
  taskIdCounter :: int

text \<open>
  A new hearing object gets a reference that no entry of the map of hearings holds.
  The cells of the heap that no entry refers to hold \<open>noHearing\<close>; nothing reads them.
\<close>

definition newRef :: "(int, ref) alist \<Rightarrow> ref" where
  "newRef m = Suc (foldr max (Map_values m) 0)"

definition noHearing :: "'n Hearing" where
  "noHearing = \<lparr> hear_id = 0, hear_processNumber = [], hear_jurisdictionId = 0,
     hear_date = [], hear_time = [], hear_type = [], hear_area = [],
     hear_professionalId = None, hear_status = None, hear_notes = None,
     hear_minutesUploaded = False, hear_minutesUrl = None, hear_paymentStatus = None,
     hear_paymentAmount = None, hear_createdAt = 0 \<rparr>"

text \<open>The fields as the constructor initialises them, before \<^verbatim>\<open>seedData()\<close> runs.\<close>

definition emptyStorage :: "'n MemStorage" where
  "emptyStorage = \<lparr> users = DAList.empty, professionals = DAList.empty,
     jurisdictions = DAList.empty, hearings = DAList.empty,
     hearingObjects = (\<lambda>_. noHearing), payments = DAList.empty, tasks = DAList.empty,
     userIdCounter = 1, professionalIdCounter = 1, jurisdictionIdCounter = 1,
     hearingIdCounter = 1, paymentIdCounter = 1, taskIdCounter = 1 \<rparr>"

subsubsection \<open>Users\<close>

definition getUser :: "'n MemStorage \<Rightarrow> int \<Rightarrow> User option" where
  "getUser s idn = Map_get (users s) idn"

definition createUser :: "InsertUser \<Rightarrow> 'n MemStorage \<Rightarrow> User \<times> 'n MemStorage" where
  "createUser user s =
     (let idn = userIdCounter s;
          newUser = \<lparr> user_id = idn, user_username = iu_username user,
            user_password = iu_password user, user_name = iu_name user,
            user_email = iu_email user, user_role = iu_role user \<rparr>
      in (newUser, s\<lparr> userIdCounter := idn + 1, users := Map_set (users s) idn newUser \<rparr>))"

subsubsection \<open>Professionals\<close>

definition getProfessional :: "'n MemStorage \<Rightarrow> int \<Rightarrow> Professional option" where
  "getProfessional s idn = Map_get (professionals s) idn"

definition getProfessionals :: "'n MemStorage \<Rightarrow> Professional list" where
  "getProfessionals s = Map_values (professionals s)"

definition createProfessional ::
  "InsertProfessional \<Rightarrow> 'n MemStorage \<Rightarrow> Professional \<times> 'n MemStorage" where
  "createProfessional professional s =
     (let idn = professionalIdCounter s;
          newProfessional = \<lparr> prof_id = idn, prof_name = ip_name professional,
            prof_email = ip_email professional, prof_phone = ip_phone professional,
            prof_type = ip_type professional,
            prof_specialization = ip_specialization professional,
            prof_jurisdictions = ip_jurisdictions professional,
            prof_userId = ip_userId professional, prof_active = ip_active professional \<rparr>
      in (newProfessional,
          s\<lparr> professionalIdCounter := idn + 1,
             professionals := Map_set (professionals s) idn newProfessional \<rparr>))"

definition mergeProfessional :: "Professional \<Rightarrow> PartialProfessional \<Rightarrow> Professional" where
  "mergeProfessional e p =
     \<lparr> prof_id = spread (prof_id e) (pp_id p),
       prof_name = spread (prof_name e) (pp_name p),
       prof_email = spread (prof_email e) (pp_email p),
       prof_phone = spread (prof_phone e) (pp_phone p),
       prof_type = spread (prof_type e) (pp_type p),
       prof_specialization = spread (prof_specialization e) (pp_specialization p),
       prof_jurisdictions = spread (prof_jurisdictions e) (pp_jurisdictions p),
       prof_userId = spread (prof_userId e) (pp_userId p),
       prof_active = spreadOpt (prof_active e) (pp_active p) \<rparr>"

definition updateProfessional ::
  "int \<Rightarrow> PartialProfessional \<Rightarrow> 'n MemStorage \<Rightarrow> Professional option \<times> 'n MemStorage" where
  "updateProfessional idn professional s =
     (case Map_get (professionals s) idn of
        None \<Rightarrow> (None, s)
      | Some existingProfessional \<Rightarrow>
          (let updatedProfessional = mergeProfessional existingProfessional professional
           in (Some updatedProfessional,
               s\<lparr> professionals := Map_set (professionals s) idn updatedProfessional \<rparr>)))"

definition deleteProfessional :: "int \<Rightarrow> 'n MemStorage \<Rightarrow> bool \<times> 'n MemStorage" where
  "deleteProfessional idn s =
     (let (existed, m) = Map_delete (professionals s) idn
      in (existed, s\<lparr> professionals := m \<rparr>))"

subsubsection \<open>Jurisdictions\<close>

definition getJurisdiction :: "'n MemStorage \<Rightarrow> int \<Rightarrow> Jurisdiction option" where
  "getJurisdiction s idn = Map_get (jurisdictions s) idn"

definition getJurisdictions :: "'n MemStorage \<Rightarrow> Jurisdiction list" where
  "getJurisdictions s = Map_values (jurisdictions s)"

definition createJurisdiction ::
  "InsertJurisdiction \<Rightarrow> 'n MemStorage \<Rightarrow> Jurisdiction \<times> 'n MemStorage" where
  "createJurisdiction jurisdiction s =
     (let idn = jurisdictionIdCounter s;
          newJurisdiction = \<lparr> jur_id = idn, jur_name = ij_name jurisdiction,
            jur_state = ij_state jurisdiction, jur_city = ij_city jurisdiction,
            jur_address = ij_address jurisdiction \<rparr>
      in (newJurisdiction,
          s\<lparr> jurisdictionIdCounter := idn + 1,
             jurisdictions := Map_set (jurisdictions s) idn newJurisdiction \<rparr>))"

definition mergeJurisdiction :: "Jurisdiction \<Rightarrow> PartialJurisdiction \<Rightarrow> Jurisdiction" where
  "mergeJurisdiction e p =
     \<lparr> jur_id = spread (jur_id e) (pj_id p),
       jur_name = spread (jur_name e) (pj_name p),
       jur_state = spread (jur_state e) (pj_state p),
       jur_city = spread (jur_city e) (pj_city p),
       jur_address = spread (jur_address e) (pj_address p) \<rparr>"

definition updateJurisdiction ::
  "int \<Rightarrow> PartialJurisdiction \<Rightarrow> 'n MemStorage \<Rightarrow> Jurisdiction option \<times> 'n MemStorage" where
  "updateJurisdiction idn jurisdiction s =
     (case Map_get (jurisdictions s) idn of
        None \<Rightarrow> (None, s)
      | Some existingJurisdiction \<Rightarrow>
          (let updatedJurisdiction = mergeJurisdiction existingJurisdiction jurisdiction
           in (Some updatedJurisdiction,
               s\<lparr> jurisdictions := Map_set (jurisdictions s) idn updatedJurisdiction \<rparr>)))"

definition deleteJurisdiction :: "int \<Rightarrow> 'n MemStorage \<Rightarrow> bool \<times> 'n MemStorage" where
  "deleteJurisdiction idn s =
     (let (existed, m) = Map_delete (jurisdictions s) idn
      in (existed, s\<lparr> jurisdictions := m \<rparr>))"

subsubsection \<open>Hearings\<close>

definition getHearing :: "'n MemStorage \<Rightarrow> int \<Rightarrow> 'n Hearing option" where
  "getHearing s idn = map_option (hearingObjects s) (Map_get (hearings s) idn)"

definition getHearings :: "'n MemStorage \<Rightarrow> 'n Hearing list" where
  "getHearings s = map (hearingObjects s) (Map_values (hearings s))"

definition createHearing ::
  "timestamp \<Rightarrow> InsertHearing \<Rightarrow> 'n MemStorage \<Rightarrow> 'n Hearing \<times> 'n MemStorage" where
  "createHearing now hearing s =
     (let idn = hearingIdCounter s;
          newHearing = \<lparr> hear_id = idn, hear_processNumber = ih_processNumber hearing,
            hear_jurisdictionId = ih_jurisdictionId hearing, hear_date = ih_date hearing,
            hear_time = ih_time hearing, hear_type = ih_type hearing,
            hear_area = ih_area hearing, hear_professionalId = ih_professionalId hearing,
            hear_status = ih_status hearing, hear_notes = ih_notes hearing,
            hear_minutesUploaded = False, hear_minutesUrl = None,
            hear_paymentStatus = Some ''pending'', hear_paymentAmount = None,
            hear_createdAt = now \<rparr>;
          r = newRef (hearings s)
      in (newHearing,
          s\<lparr> hearingIdCounter := idn + 1,
             hearingObjects := (hearingObjects s)(r := newHearing),
             hearings := Map_set (hearings s) idn r \<rparr>))"

definition mergeHearing :: "'n Hearing \<Rightarrow> 'n PartialHearing \<Rightarrow> 'n Hearing" where
  "mergeHearing e p =
     \<lparr> hear_id = spread (hear_id e) (ph_id p),
       hear_processNumber = spread (hear_processNumber e) (ph_processNumber p),
       hear_jurisdictionId = spread (hear_jurisdictionId e) (ph_jurisdictionId p),
       hear_date = spread (hear_date e) (ph_date p),
       hear_time = spread (hear_time e) (ph_time p),
       hear_type = spread (hear_type e) (ph_type p),
       hear_area = spread (hear_area e) (ph_area p),
       hear_professionalId = spread (hear_professionalId e) (ph_professionalId p),
       hear_status = spreadOpt (hear_status e) (ph_status p),
       hear_notes = spread (hear_notes e) (ph_notes p),
       hear_minutesUploaded = spread (hear_minutesUploaded e) (ph_minutesUploaded p),
       hear_minutesUrl = spread (hear_minutesUrl e) (ph_minutesUrl p),
       hear_paymentStatus = spreadOpt (hear_paymentStatus e) (ph_paymentStatus p),
       hear_paymentAmount = spread (hear_paymentAmount e) (ph_paymentAmount p),
       hear_createdAt = spread (hear_createdAt e) (ph_createdAt p) \<rparr>"

text \<open>The spread builds a new object; the map entry is pointed at it.\<close>

definition updateHearing ::
  "int \<Rightarrow> 'n PartialHearing \<Rightarrow> 'n MemStorage \<Rightarrow> 'n Hearing option \<times> 'n MemStorage" where
  "updateHearing idn hearing s =
     (case getHearing s idn of
        None \<Rightarrow> (None, s)
      | Some existingHearing \<Rightarrow>
          (let updatedHearing = mergeHearing existingHearing hearing;
               r = newRef (hearings s)
           in (Some updatedHearing,
               s\<lparr> hearingObjects := (hearingObjects s)(r := updatedHearing),
                  hearings := Map_set (hearings s) idn r \<rparr>)))"

definition deleteHearing :: "int \<Rightarrow> 'n MemStorage \<Rightarrow> bool \<times> 'n MemStorage" where
  "deleteHearing idn s =
     (let (existed, m) = Map_delete (hearings s) idn
      in (existed, s\<lparr> hearings := m \<rparr>))"

subsubsection \<open>Payments\<close>

definition getPayment :: "'n MemStorage \<Rightarrow> int \<Rightarrow> 'n Payment option" where
  "getPayment s idn = Map_get (payments s) idn"

definition getPayments :: "'n MemStorage \<Rightarrow> 'n Payment list" where
  "getPayments s = Map_values (payments s)"

text \<open>
  The hearing is fetched from the map, its two payment properties are assigned in
  place, and the same object is put back under its own \<^verbatim>\<open>id\<close> property.
\<close>

definition createPayment ::
  "timestamp \<Rightarrow> 'n InsertPayment \<Rightarrow> 'n MemStorage \<Rightarrow> 'n Payment \<times> 'n MemStorage" where
  "createPayment now payment s =
     (let idn = paymentIdCounter s;
          newPayment = \<lparr> pay_id = idn, pay_hearingId = ipay_hearingId payment,
            pay_professionalId = ipay_professionalId payment,
            pay_amount = ipay_amount payment, pay_status = ipay_status payment,
            pay_paymentDate = ipay_paymentDate payment, pay_notes = ipay_notes payment,
            pay_createdAt = now \<rparr>;
          s1 = s\<lparr> paymentIdCounter := idn + 1,
                 payments := Map_set (payments s) idn newPayment \<rparr>
      in case Map_get (hearings s1) (ipay_hearingId payment) of
           None \<Rightarrow> (newPayment, s1)
         | Some r \<Rightarrow>
             (let hearing = (hearingObjects s1 r)
                    \<lparr> hear_paymentStatus := ipay_status payment,
                      hear_paymentAmount := Some (ipay_amount payment) \<rparr>
              in (newPayment,
                  s1\<lparr> hearingObjects := (hearingObjects s1)(r := hearing),
                      hearings := Map_set (hearings s1) (hear_id hearing) r \<rparr>)))"

definition mergePayment :: "'n Payment \<Rightarrow> 'n PartialPayment \<Rightarrow> 'n Payment" where
  "mergePayment e p =
     \<lparr> pay_id = spread (pay_id e) (ppay_id p),
       pay_hearingId = spread (pay_hearingId e) (ppay_hearingId p),
       pay_professionalId = spread (pay_professionalId e) (ppay_professionalId p),
       pay_amount = spread (pay_amount e) (ppay_amount p),
       pay_status = spreadOpt (pay_status e) (ppay_status p),
       pay_paymentDate = spread (pay_paymentDate e) (ppay_paymentDate p),
       pay_notes = spread (pay_notes e) (ppay_notes p),
       pay_createdAt = spread (pay_createdAt e) (ppay_createdAt p) \<rparr>"

text \<open>
  The guard \<^verbatim>\<open>payment.status && existingPayment.status !== payment.status\<close>: a string is
  truthy when it is present and not empty.
\<close>

definition truthy :: "string option \<Rightarrow> bool" where
  "truthy x = (case x of None \<Rightarrow> False | Some v \<Rightarrow> v \<noteq> [])"

definition updatePayment ::
  "int \<Rightarrow> 'n PartialPayment \<Rightarrow> 'n MemStorage \<Rightarrow> 'n Payment option \<times> 'n MemStorage" where
  "updatePayment idn payment s =
     (case Map_get (payments s) idn of
        None \<Rightarrow> (None, s)
      | Some existingPayment \<Rightarrow>
          (let updatedPayment = mergePayment existingPayment payment;
               s1 = s\<lparr> payments := Map_set (payments s) idn updatedPayment \<rparr>
           in if truthy (ppay_status payment)
                 \<and> pay_status existingPayment \<noteq> ppay_status payment
              then (case Map_get (hearings s1) (pay_hearingId existingPayment) of
                      None \<Rightarrow> (Some updatedPayment, s1)
                    | Some r \<Rightarrow>
                        (let hearing = (hearingObjects s1 r)
                               \<lparr> hear_paymentStatus := ppay_status payment \<rparr>
                         in (Some updatedPayment,
                             s1\<lparr> hearingObjects := (hearingObjects s1)(r := hearing),
                                 hearings := Map_set (hearings s1) (hear_id hearing) r \<rparr>)))
              else (Some updatedPayment, s1)))"

definition deletePayment :: "int \<Rightarrow> 'n MemStorage \<Rightarrow> bool \<times> 'n MemStorage" where
  "deletePayment idn s =
     (let (existed, m) = Map_delete (payments s) idn
      in (existed, s\<lparr> payments := m \<rparr>))"

subsubsection \<open>Tasks\<close>

definition getTask :: "'n MemStorage \<Rightarrow> int \<Rightarrow> Task option" where
  "getTask s idn = Map_get (tasks s) idn"

definition getTasks :: "'n MemStorage \<Rightarrow> Task list" where
  "getTasks s = Map_values (tasks s)"

definition createTask ::
  "timestamp \<Rightarrow> InsertTask \<Rightarrow> 'n MemStorage \<Rightarrow> Task \<times> 'n MemStorage" where
  "createTask now task s =
     (let idn = taskIdCounter s;
          newTask = \<lparr> task_id = idn, task_title = it_title task,
            task_description = it_description task, task_status = it_status task,
            task_type = it_type task, task_relatedId = it_relatedId task,
            task_dueDate = it_dueDate task, task_createdAt = now \<rparr>
      in (newTask, s\<lparr> taskIdCounter := idn + 1, tasks := Map_set (tasks s) idn newTask \<rparr>))"

definition mergeTask :: "Task \<Rightarrow> PartialTask \<Rightarrow> Task" where
  "mergeTask e p =
     \<lparr> task_id = spread (task_id e) (pt_id p),
       task_title = spread (task_title e) (pt_title p),
       task_description = spread (task_description e) (pt_description p),
       task_status = spreadOpt (task_status e) (pt_status p),
       task_type = spread (task_type e) (pt_type p),
       task_relatedId = spread (task_relatedId e) (pt_relatedId p),
       task_dueDate = spread (task_dueDate e) (pt_dueDate p),
       task_createdAt = spread (task_createdAt e) (pt_createdAt p) \<rparr>"

definition updateTask ::
  "int \<Rightarrow> PartialTask \<Rightarrow> 'n MemStorage \<Rightarrow> Task option \<times> 'n MemStorage" where
  "updateTask idn task s =
     (case Map_get (tasks s) idn of
        None \<Rightarrow> (None, s)
      | Some existingTask \<Rightarrow>
          (let updatedTask = mergeTask existingTask task
           in (Some updatedTask, s\<lparr> tasks := Map_set (tasks s) idn updatedTask \<rparr>)))"

definition deleteTask :: "int \<Rightarrow> 'n MemStorage \<Rightarrow> bool \<times> 'n MemStorage" where
  "deleteTask idn s =
     (let (existed, m) = Map_delete (tasks s) idn
      in (existed, s\<lparr> tasks := m \<rparr>))"

subsubsection \<open>Dates\<close>

text \<open>
  The financial summary moves \<^verbatim>\<open>new Date()\<close> back with \<^verbatim>\<open>setDate\<close> and \<^verbatim>\<open>setMonth\<close>.
  These are the operations of ECMA-262 (Date objects): both work on the local time of
  the \<^verbatim>\<open>Date\<close>, rebuild its day number with \<^verbatim>\<open>MakeDay\<close> from the year, the month and
  the date, one of them replaced by the argument, keep the time within the day, and
  take the result back to UTC.

  A \<^verbatim>\<open>Date\<close> object is the record of the fields of its local time: the year, the month
  (\<open>0\<close> to \<open>11\<close>), the date (from \<open>1\<close>) and the milliseconds within the day. \<open>tza\<close> is
  the offset of the server's time zone from UTC in milliseconds, at a local time
  (\<^verbatim>\<open>LocalTZA(t, false)\<close>); a server that runs in UTC has the offset \<open>0\<close> throughout.
  The time value of the \<^verbatim>\<open>Date\<close> is \<open>getTime\<close>, its local time taken to UTC. All time
  values are taken to lie in the range that \<^verbatim>\<open>TimeClip\<close> leaves alone.
\<close>

definition msPerDay :: int where
  "msPerDay = 86400000"

definition days :: "int \<Rightarrow> int" where
  "days n = n * msPerDay"

definition DaysInYear :: "int \<Rightarrow> int" where
  "DaysInYear y =
     (if y mod 4 \<noteq> 0 then 365
      else if y mod 100 \<noteq> 0 then 366
      else if y mod 400 \<noteq> 0 then 365
      else 366)"

definition DayFromYear :: "int \<Rightarrow> int" where
  "DayFromYear y =
     365 * (y - 1970) + (y - 1969) div 4 - (y - 1901) div 100 + (y - 1601) div 400"

definition InLeapYear :: "int \<Rightarrow> int" where
  "InLeapYear y = (if DaysInYear y = 366 then 1 else 0)"

text \<open>
  The day within the year on which month \<open>mn\<close> begins, and the number of days of the
  month (the table of \<^verbatim>\<open>MonthFromTime\<close>).
\<close>

definition firstDayWithinYear :: "int \<Rightarrow> int \<Rightarrow> int" where
  "firstDayWithinYear y mn =
     (if mn = 0 then 0
      else if mn = 1 then 31
      else [59, 90, 120, 151, 181, 212, 243, 273, 304, 334] ! nat (mn - 2) + InLeapYear y)"

definition DaysInMonth :: "int \<Rightarrow> int \<Rightarrow> int" where
  "DaysInMonth y mn =
     (if mn = 1 then 28 + InLeapYear y
      else if mn = 3 \<or> mn = 5 \<or> mn = 8 \<or> mn = 10 then 30
      else 31)"

text \<open>
  \<^verbatim>\<open>MakeDay\<close> accepts any month and any date: the month is reduced to a year and a month
  of \<open>0\<close> to \<open>11\<close>, and the date is counted on from the first day of that month, past
  the month's end if it is larger than the month is long.
\<close>

definition MakeDay :: "int \<Rightarrow> int \<Rightarrow> int \<Rightarrow> int" where
  "MakeDay year month date =
     (let ym = year + month div 12;
          mn = month mod 12
      in DayFromYear ym + firstDayWithinYear ym mn + date - 1)"

definition MakeDate :: "int \<Rightarrow> int \<Rightarrow> int" where
  "MakeDate day time = day * msPerDay + time"

record Date =
  date_year :: int
  date_month :: int
  date_date :: int
  date_time :: int

definition LocalTime :: "Date \<Rightarrow> int" where
  "LocalTime d = MakeDate (MakeDay (date_year d) (date_month d) (date_date d)) (date_time d)"

definition UTC :: "(int \<Rightarrow> int) \<Rightarrow> int \<Rightarrow> timestamp" where
  "UTC tza t = t - tza t"

definition getTime :: "(int \<Rightarrow> int) \<Rightarrow> Date \<Rightarrow> timestamp" where
  "getTime tza d = UTC tza (LocalTime d)"

definition getDate :: "Date \<Rightarrow> int" where
  "getDate d = date_date d"

definition getMonth :: "Date \<Rightarrow> int" where
  "getMonth d = date_month d"

text \<open>
  \<^verbatim>\<open>setDate(date)\<close> and \<^verbatim>\<open>setMonth(month)\<close> return the new time value of the \<^verbatim>\<open>Date\<close>,
  which is all that the summary uses of it afterwards.
\<close>

definition setDate :: "(int \<Rightarrow> int) \<Rightarrow> Date \<Rightarrow> int \<Rightarrow> timestamp" where
  "setDate tza d dt =
     (let newDate = MakeDate (MakeDay (date_year d) (date_month d) dt) (date_time d)
      in UTC tza newDate)"

definition setMonth :: "(int \<Rightarrow> int) \<Rightarrow> Date \<Rightarrow> int \<Rightarrow> timestamp" where
  "setMonth tza d m =
     (let newDate = MakeDate (MakeDay (date_year d) m (date_date d)) (date_time d)
      in UTC tza newDate)"

subsubsection \<open>The financial summary\<close>

text \<open>
  \<open>now\<close> is the \<^verbatim>\<open>Date\<close> that \<^verbatim>\<open>new Date()\<close> returns. The start of the window is
  \<^verbatim>\<open>setDate(getDate() - 7)\<close> for the week and \<^verbatim>\<open>setMonth(getMonth() - 1)\<close> for the month;
  two \<^verbatim>\<open>Date\<close>s are compared by their time values.
\<close>

record 'n FinancialSummary =
  total :: 'n
  pending :: 'n
  paid :: 'n

definition sumAmounts :: "('n::{zero,plus}) Payment list \<Rightarrow> 'n" where
  "sumAmounts ps = foldl (\<lambda>sum payment. sum + pay_amount payment) 0 ps"

definition filteredPayments ::
  "(int \<Rightarrow> int) \<Rightarrow> Date \<Rightarrow> string \<Rightarrow> 'n Payment list \<Rightarrow> 'n Payment list" where
  "filteredPayments tza now period ps =
     (if period = ''week'' then
        (let oneWeekAgo = setDate tza now (getDate now - 7)
         in filter (\<lambda>p. pay_createdAt p \<ge> oneWeekAgo) ps)
      else if period = ''month'' then
        (let oneMonthAgo = setMonth tza now (getMonth now - 1)
         in filter (\<lambda>p. pay_createdAt p \<ge> oneMonthAgo) ps)
      else ps)"

definition getFinancialSummary ::
  "(int \<Rightarrow> int) \<Rightarrow> Date \<Rightarrow> string option \<Rightarrow> ('n::{zero,plus}) MemStorage
     \<Rightarrow> 'n FinancialSummary" where
  "getFinancialSummary tza now periodArg s =
     (let period = (case periodArg of None \<Rightarrow> ''month'' | Some p \<Rightarrow> p);
          allPayments = Map_values (payments s);
          filtered = filteredPayments tza now period allPayments
      in \<lparr> total = sumAmounts filtered,
           pending = sumAmounts (filter (\<lambda>p. pay_status p = Some ''pending'') filtered),
           paid = sumAmounts (filter (\<lambda>p. pay_status p = Some ''paid'') filtered) \<rparr>)"

subsubsection \<open>The constructor and its seed data\<close>

text \<open>
  \<^verbatim>\<open>seedData()\<close> calls the store's own create methods. \<open>now\<close> is the instant of
  construction, \<open>today\<close> and \<open>tomorrow\<close> the two ISO dates derived from it. The
  accented letters of the seed strings are single Latin-1 characters.
\<close>

definition seedUser :: InsertUser where
  "seedUser = \<lparr> iu_username = ''admin'', iu_password = ''admin'', iu_name = ''Admin'',
     iu_email = ''admin@juriscrm.com'', iu_role = Some ''admin'' \<rparr>"

definition seedJurisdictions :: "InsertJurisdiction list" where
  "seedJurisdictions =
     [\<lparr> ij_name = ''Foro Central Civil'', ij_state = ''SP'',
        ij_city = ''S'' @ [CHR 0xE3] @ ''o Paulo'',
        ij_address = ''Pra'' @ [CHR 0xE7] @ ''a Jo'' @ [CHR 0xE3] @ ''o Mendes, s/n'' \<rparr>,
      \<lparr> ij_name = ''Foro Regional Criminal'', ij_state = ''RJ'',
        ij_city = ''Rio de Janeiro'', ij_address = ''Av. Erasmo Braga, 115'' \<rparr>,
      \<lparr> ij_name = ''Vara Trabalhista'', ij_state = ''MG'',
        ij_city = ''Belo Horizonte'', ij_address = ''Av. Augusto de Lima, 1234'' \<rparr>,
      \<lparr> ij_name = ''Vara Federal'', ij_state = ''DF'',
        ij_city = ''Bras'' @ [CHR 0xED] @ ''lia'', ij_address = ''SAUS Quadra 2, Bloco G'' \<rparr>,
      \<lparr> ij_name = ''Vara C'' @ [CHR 0xED] @ ''vel'', ij_state = ''RS'',
        ij_city = ''Porto Alegre'', ij_address = ''Rua Manoelito de Ornellas, 50'' \<rparr>]"

definition seedProfessional ::
  "string \<Rightarrow> string \<Rightarrow> string \<Rightarrow> string \<Rightarrow> string \<Rightarrow> string list \<Rightarrow> InsertProfessional" where
  "seedProfessional name email phone type specialization states =
     \<lparr> ip_name = name, ip_email = email, ip_phone = phone, ip_type = type,
       ip_specialization = specialization, ip_jurisdictions = states,
       ip_userId = None, ip_active = None \<rparr>"

definition seedProfessionals :: "InsertProfessional list" where
  "seedProfessionals =
     [seedProfessional ''Dr. Carlos Mendes'' ''carlos@juriscrm.com'' ''11987654321''
        ''lawyer'' ''Civil'' [''SP'', ''RJ''],
      seedProfessional ''Dra. Mariana Costa'' ''mariana@juriscrm.com'' ''21987654321''
        ''lawyer'' ''Criminal'' [''RJ'', ''SP''],
      seedProfessional ''Dr. Rafael Almeida'' ''rafael@juriscrm.com'' ''31987654321''
        ''lawyer'' ''Labor'' [''MG'', ''SP''],
      seedProfessional (''Dra. Patr'' @ [CHR 0xED] @ ''cia Lima'') ''patricia@juriscrm.com''
        ''61987654321'' ''court_official'' ''Civil'' [''DF'', ''SP''],
      seedProfessional ''Dr. Eduardo Santos'' ''eduardo@juriscrm.com'' ''51987654321''
        ''court_official'' ''Criminal'' [''RS'', ''RJ'']]"

definition seedHearings :: "string \<Rightarrow> string \<Rightarrow> InsertHearing list" where
  "seedHearings today tomorrow =
     [\<lparr> ih_processNumber = ''2023.0123.4567'', ih_jurisdictionId = 1, ih_date = today,
        ih_time = ''14:30'', ih_type = ''Instruction'', ih_area = ''Civil'',
        ih_professionalId = Some 1, ih_status = Some ''assigned'', ih_notes = None \<rparr>,
      \<lparr> ih_processNumber = ''2023.7654.3210'', ih_jurisdictionId = 2, ih_date = tomorrow,
        ih_time = ''10:00'', ih_type = ''Conciliation'', ih_area = ''Criminal'',
        ih_professionalId = Some 2, ih_status = Some ''assigned'', ih_notes = None \<rparr>,
      \<lparr> ih_processNumber = ''2023.9876.5432'', ih_jurisdictionId = 3, ih_date = tomorrow,
        ih_time = ''09:15'', ih_type = ''Judgment'', ih_area = ''Labor'',
        ih_professionalId = None, ih_status = Some ''pending'', ih_notes = None \<rparr>]"

definition seedTasks :: "InsertTask list" where
  "seedTasks =
     [\<lparr> it_title = ''Upload de Ata Pendente'',
        it_description = ''Proc. 2023.0001.2345 - Audi'' @ [CHR 0xEA] @ ''ncia realizada em 10/06'',
        it_status = Some ''pending'', it_type = ''upload_minutes'', it_relatedId = Some 1,
        it_dueDate = None \<rparr>,
      \<lparr> it_title = ''Designar Advogado'',
        it_description = ''Proc. 2023.9876.5432 - Audi'' @ [CHR 0xEA] @ ''ncia em 14/06'',
        it_status = Some ''pending'', it_type = ''assign_professional'',
        it_relatedId = Some 3, it_dueDate = None \<rparr>,
      \<lparr> it_title = ''Pagamento Pendente'',
        it_description = ''Dr. Rafael Almeida - 3 audi'' @ [CHR 0xEA] @ ''ncias conclu''
          @ [CHR 0xED] @ ''das'',
        it_status = Some ''pending'', it_type = ''payment'', it_relatedId = Some 3,
        it_dueDate = None \<rparr>]"

text \<open>\<^verbatim>\<open>xs.forEach(x => this.create(x))\<close>: the results are dropped.\<close>

definition forEach :: "('a \<Rightarrow> 's \<Rightarrow> 'b \<times> 's) \<Rightarrow> 'a list \<Rightarrow> 's \<Rightarrow> 's" where
  "forEach f xs s = foldl (\<lambda>s x. snd (f x s)) s xs"

definition seedData :: "timestamp \<Rightarrow> string \<Rightarrow> string \<Rightarrow> 'n MemStorage \<Rightarrow> 'n MemStorage" where
  "seedData now today tomorrow s =
     (let s1 = snd (createUser seedUser s);
          s2 = forEach createJurisdiction seedJurisdictions s1;
          s3 = forEach createProfessional seedProfessionals s2;
          s4 = forEach (createHearing now) (seedHearings today tomorrow) s3
      in forEach (createTask now) seedTasks s4)"

definition newMemStorage :: "timestamp \<Rightarrow> string \<Rightarrow> string \<Rightarrow> 'n MemStorage" where
  "newMemStorage now today tomorrow = seedData now today tomorrow emptyStorage"

subsection \<open>Sequences of store calls\<close>

text \<open>
  The mutating methods of \<^verbatim>\<open>IStorage\<close> as commands. \<open>perform\<close> runs one and reports
  the entity type and identifier of the entity it created, if it is a create.
\<close>

datatype EntityType = TUser | TProfessional | TJurisdiction | THearing | TPayment | TTask

datatype 'n Command =
    CreateUser InsertUser
  | CreateProfessional InsertProfessional
  | UpdateProfessional int PartialProfessional
  | DeleteProfessional int
  | CreateJurisdiction InsertJurisdiction
  | UpdateJurisdiction int PartialJurisdiction
  | DeleteJurisdiction int
  | CreateHearing timestamp InsertHearing
  | UpdateHearing int "'n PartialHearing"
  | DeleteHearing int
  | CreatePayment timestamp "'n InsertPayment"
  | UpdatePayment int "'n PartialPayment"
  | DeletePayment int
  | CreateTask timestamp InsertTask
  | UpdateTask int PartialTask
  | DeleteTask int

fun perform :: "'n Command \<Rightarrow> 'n MemStorage \<Rightarrow> (EntityType \<times> int) option \<times> 'n MemStorage" where
  "perform (CreateUser u) s = (let (e, s') = createUser u s in (Some (TUser, user_id e), s'))"
| "perform (CreateProfessional p) s =
     (let (e, s') = createProfessional p s in (Some (TProfessional, prof_id e), s'))"
| "perform (UpdateProfessional i p) s = (None, snd (updateProfessional i p s))"
| "perform (DeleteProfessional i) s = (None, snd (deleteProfessional i s))"
| "perform (CreateJurisdiction j) s =
     (let (e, s') = createJurisdiction j s in (Some (TJurisdiction, jur_id e), s'))"
| "perform (UpdateJurisdiction i j) s = (None, snd (updateJurisdiction i j s))"
| "perform (DeleteJurisdiction i) s = (None, snd (deleteJurisdiction i s))"
| "perform (CreateHearing now h) s =
     (let (e, s') = createHearing now h s in (Some (THearing, hear_id e), s'))"
| "perform (UpdateHearing i h) s = (None, snd (updateHearing i h s))"
| "perform (DeleteHearing i) s = (None, snd (deleteHearing i s))"
| "perform (CreatePayment now p) s =
     (let (e, s') = createPayment now p s in (Some (TPayment, pay_id e), s'))"
| "perform (UpdatePayment i p) s = (None, snd (updatePayment i p s))"
| "perform (DeletePayment i) s = (None, snd (deletePayment i s))"
| "perform (CreateTask now t) s =
     (let (e, s') = createTask now t s in (Some (TTask, task_id e), s'))"
| "perform (UpdateTask i t) s = (None, snd (updateTask i t s))"
| "perform (DeleteTask i) s = (None, snd (deleteTask i s))"

text \<open>
  A sequence of calls: the identifiers handed out, in order, and the final store.
\<close>

fun performAll ::
  "'n Command list \<Rightarrow> 'n MemStorage \<Rightarrow> (EntityType \<times> int) list \<times> 'n MemStorage" where
  "performAll [] s = ([], s)"
| "performAll (c # cs) s =
     (let (r, s') = perform c s; (rs, s'') = performAll cs s'
      in ((case r of None \<Rightarrow> [] | Some x \<Rightarrow> [x]) @ rs, s''))"

definition assignedIds :: "EntityType \<Rightarrow> (EntityType \<times> int) list \<Rightarrow> int list" where
  "assignedIds ty rs = map snd (filter (\<lambda>r. fst r = ty) rs)"

fun counterOf :: "EntityType \<Rightarrow> 'n MemStorage \<Rightarrow> int" where
  "counterOf TUser s = userIdCounter s"
| "counterOf TProfessional s = professionalIdCounter s"
| "counterOf TJurisdiction s = jurisdictionIdCounter s"
| "counterOf THearing s = hearingIdCounter s"
| "counterOf TPayment s = paymentIdCounter s"
| "counterOf TTask s = taskIdCounter s"

definition seedCommands :: "timestamp \<Rightarrow> string \<Rightarrow> string \<Rightarrow> 'n Command list" where
  "seedCommands now today tomorrow =
     CreateUser seedUser # map CreateJurisdiction seedJurisdictions
       @ map CreateProfessional seedProfessionals
       @ map (CreateHearing now) (seedHearings today tomorrow)
       @ map (CreateTask now) seedTasks"

subsection \<open>Route handlers (\<^verbatim>\<open>server/routes.ts\<close>)\<close>

text \<open>
  A handler takes what Express hands it after parsing and returns the response it
  sends and the store it leaves. \<open>idParam\<close> is \<^verbatim>\<open>parseInt(req.params.id)\<close>, \<open>None\<close>
  when that is \<^verbatim>\<open>NaN\<close>; \<open>file\<close> is \<^verbatim>\<open>req.file?.filename\<close>; a validated body is
  \<open>Inr\<close> of the parsed data and a rejected one \<open>Inl\<close> of the validation message.
\<close>

datatype 'n Body =
    ErrorBody string
  | HearingBody "'n Hearing"
  | PaymentBody "'n Payment"

datatype 'n Response = Response int "'n Body"

definition noHearingChange :: "'n PartialHearing" where
  "noHearingChange = \<lparr> ph_id = None, ph_processNumber = None, ph_jurisdictionId = None,
     ph_date = None, ph_time = None, ph_type = None, ph_area = None,
     ph_professionalId = None, ph_status = None, ph_notes = None,
     ph_minutesUploaded = None, ph_minutesUrl = None, ph_paymentStatus = None,
     ph_paymentAmount = None, ph_createdAt = None \<rparr>"

definition noTaskChange :: PartialTask where
  "noTaskChange = \<lparr> pt_id = None, pt_title = None, pt_description = None,
     pt_status = None, pt_type = None, pt_relatedId = None, pt_dueDate = None,
     pt_createdAt = None \<rparr>"

definition noPaymentChange :: "'n PartialPayment" where
  "noPaymentChange = \<lparr> ppay_id = None, ppay_hearingId = None, ppay_professionalId = None,
     ppay_amount = None, ppay_status = None, ppay_paymentDate = None, ppay_notes = None,
     ppay_createdAt = None \<rparr>"

text \<open>\<^verbatim>\<open>{ minutesUploaded: true, minutesUrl, status: "completed" }\<close>\<close>

definition minutesChange :: "string \<Rightarrow> 'n PartialHearing" where
  "minutesChange minutesUrl =
     noHearingChange \<lparr> ph_minutesUploaded := Some True,
       ph_minutesUrl := Some (Some minutesUrl), ph_status := Some ''completed'' \<rparr>"

text \<open>\<^verbatim>\<open>{ status: "completed" }\<close>\<close>

definition completedChange :: PartialTask where
  "completedChange = noTaskChange \<lparr> pt_status := Some ''completed'' \<rparr>"

definition isPendingTask :: "string \<Rightarrow> int \<Rightarrow> Task \<Rightarrow> bool" where
  "isPendingTask ty idn t \<longleftrightarrow>
     task_type t = ty \<and> task_relatedId t = Some idn \<and> task_status t = Some ''pending''"

text \<open>\<^verbatim>\<open>POST /api/hearings/:id/minutes\<close>\<close>

definition postHearingMinutes ::
  "int option \<Rightarrow> string option \<Rightarrow> 'n MemStorage \<Rightarrow> 'n Response \<times> 'n MemStorage" where
  "postHearingMinutes idParam file s =
     (case idParam of
        None \<Rightarrow> (Response 400 (ErrorBody ''Invalid ID''), s)
      | Some idn \<Rightarrow>
     (case file of
        None \<Rightarrow> (Response 400 (ErrorBody ''No file uploaded''), s)
      | Some filename \<Rightarrow>
     (case getHearing s idn of
        None \<Rightarrow> (Response 404 (ErrorBody ''Hearing not found''), s)
      | Some hearing \<Rightarrow>
          (let minutesUrl = ''/uploads/'' @ filename;
               (updatedHearing, s1) = updateHearing idn (minutesChange minutesUrl) s
           in case updatedHearing of
                None \<Rightarrow> (Response 500 (ErrorBody ''Failed to update hearing''), s1)
              | Some updated \<Rightarrow>
                  (case find (isPendingTask ''upload_minutes'' idn) (getTasks s1) of
                     None \<Rightarrow> (Response 200 (HearingBody updated), s1)
                   | Some minutesTask \<Rightarrow>
                       (Response 200 (HearingBody updated),
                        snd (updateTask (task_id minutesTask) completedChange s1)))))))"

text \<open>\<^verbatim>\<open>POST /api/payments\<close>\<close>

definition postPayment ::
  "timestamp \<Rightarrow> string + 'n InsertPayment \<Rightarrow> 'n MemStorage \<Rightarrow> 'n Response \<times> 'n MemStorage" where
  "postPayment now result s =
     (case result of
        Inl errorMessage \<Rightarrow> (Response 400 (ErrorBody errorMessage), s)
      | Inr data \<Rightarrow>
          (let (payment, s1) = createPayment now data s
           in case find (isPendingTask ''payment'' (ipay_hearingId data)) (getTasks s1) of
                None \<Rightarrow> (Response 201 (PaymentBody payment), s1)
              | Some paymentTask \<Rightarrow>
                  (Response 201 (PaymentBody payment),
                   snd (updateTask (task_id paymentTask) completedChange s1))))"

text \<open>\<^verbatim>\<open>PUT /api/payments/:id\<close>\<close>

definition putPayment ::
  "int option \<Rightarrow> string + 'n PartialPayment \<Rightarrow> 'n MemStorage \<Rightarrow> 'n Response \<times> 'n MemStorage" where
  "putPayment idParam result s =
     (case idParam of
        None \<Rightarrow> (Response 400 (ErrorBody ''Invalid ID''), s)
      | Some idn \<Rightarrow>
     (case result of
        Inl errorMessage \<Rightarrow> (Response 400 (ErrorBody errorMessage), s)
      | Inr data \<Rightarrow>
          (case updatePayment idn data s of
             (None, s1) \<Rightarrow> (Response 404 (ErrorBody ''Payment not found''), s1)
           | (Some payment, s1) \<Rightarrow> (Response 200 (PaymentBody payment), s1))))"

subsection \<open>Eligible professionals\<close>

subsubsection \<open>The hearing form\<close>

text \<open>
  The form holds the two query results (\<open>None\<close> while a query has no data), the selected
  jurisdiction identifier (\<open>0\<close> initially) and the selected area. A number is falsy when
  it is \<open>0\<close>, a string when it is empty; \<^verbatim>\<open>jurisdiction?.state || null\<close> is \<^verbatim>\<open>null\<close> for a
  missing jurisdiction and for an empty state alike.
\<close>

definition findJurisdiction :: "Jurisdiction list \<Rightarrow> int \<Rightarrow> Jurisdiction option" where
  "findJurisdiction js idn = find (\<lambda>j. jur_id j = idn) js"

definition getJurisdictionState :: "Jurisdiction list option \<Rightarrow> int \<Rightarrow> string option" where
  "getJurisdictionState jurisdictionsData idn =
     (case jurisdictionsData of
        None \<Rightarrow> None
      | Some js \<Rightarrow>
          (case findJurisdiction js idn of
             None \<Rightarrow> None
           | Some jurisdiction \<Rightarrow>
               (if jur_state jurisdiction \<noteq> [] then Some (jur_state jurisdiction) else None)))"

definition isEligible :: "Jurisdiction list option \<Rightarrow> int \<Rightarrow> string \<Rightarrow> Professional \<Rightarrow> bool" where
  "isEligible jurisdictionsData selectedJurisdictionId selectedArea professional =
     (if selectedJurisdictionId = 0 \<or> selectedArea = [] then False
      else case getJurisdictionState jurisdictionsData selectedJurisdictionId of
             None \<Rightarrow> False
           | Some jurisdictionState \<Rightarrow>
               prof_active professional = Some True
               \<and> jurisdictionState \<in> set (prof_jurisdictions professional)
               \<and> prof_specialization professional = selectedArea)"

definition eligibleProfessionals ::
  "Professional list option \<Rightarrow> Jurisdiction list option \<Rightarrow> int \<Rightarrow> string \<Rightarrow> Professional list" where
  "eligibleProfessionals professionalsData jurisdictionsData selectedJurisdictionId selectedArea =
     (case professionalsData of
        None \<Rightarrow> []
      | Some ps \<Rightarrow> filter (isEligible jurisdictionsData selectedJurisdictionId selectedArea) ps)"

subsubsection \<open>The hearings page\<close>

text \<open>
  \<^verbatim>\<open>getEligibleProfessionals(hearing)\<close> of \<^verbatim>\<open>client/src/pages/hearings.tsx\<close> lists the
  professionals that can be assigned to a stored hearing. It is empty while either query
  has no data and when no jurisdiction has the hearing's \<^verbatim>\<open>jurisdictionId\<close>; otherwise
  it filters on the state of that jurisdiction, whatever string it is.
\<close>

definition getEligibleProfessionals ::
  "Professional list option \<Rightarrow> Jurisdiction list option \<Rightarrow> 'n Hearing \<Rightarrow> Professional list" where
  "getEligibleProfessionals professionalsData jurisdictionsData hearing =
     (case professionalsData of
        None \<Rightarrow> []
      | Some ps \<Rightarrow>
          (case jurisdictionsData of
             None \<Rightarrow> []
           | Some js \<Rightarrow>
               (case findJurisdiction js (hear_jurisdictionId hearing) of
                  None \<Rightarrow> []
                | Some jurisdiction \<Rightarrow>
                    filter (\<lambda>p. prof_active p = Some True
                              \<and> jur_state jurisdiction \<in> set (prof_jurisdictions p)
                              \<and> prof_specialization p = hear_area hearing) ps)))"

subsection \<open>Conditions on a store\<close>

text \<open>
  Every key of the map of payments was handed out by the counter. The constructor
  establishes this and every store method keeps it (\<open>paymentIdsIssued_performAll\<close>).
\<close>

definition paymentIdsIssued :: "'n MemStorage \<Rightarrow> bool" where
  "paymentIdsIssued s \<longleftrightarrow> list_all (\<lambda>k. k < paymentIdCounter s) (Map_keys (payments s))"

text \<open>
  Every hearing carries the key it is stored under as its \<^verbatim>\<open>id\<close>. A create
  establishes this for the new hearing; an update whose partial carries another \<^verbatim>\<open>id\<close>
  breaks it, every other store method keeps it (\<open>hearingIdsMatchKeys_perform\<close>).
\<close>

definition hearingIdsMatchKeys :: "'n MemStorage \<Rightarrow> bool" where
  "hearingIdsMatchKeys s \<longleftrightarrow>
     list_all (\<lambda>e. hear_id (hearingObjects s (snd e)) = fst e) (DAList.impl_of (hearings s))"

text \<open>The guard under which \<^verbatim>\<open>updatePayment\<close> touches the owning hearing.\<close>

definition propagates :: "'n Payment \<Rightarrow> 'n PartialPayment \<Rightarrow> bool" where
  "propagates p u \<longleftrightarrow> truthy (ppay_status u) \<and> pay_status p \<noteq> ppay_status u"

text \<open>The same for tasks.\<close>

definition taskIdsMatchKeys :: "'n MemStorage \<Rightarrow> bool" where
  "taskIdsMatchKeys s \<longleftrightarrow>
     list_all (\<lambda>e. task_id (snd e) = fst e) (DAList.impl_of (tasks s))"

definition keepsTaskId :: "'n Command \<Rightarrow> bool" where
  "keepsTaskId c =
     (case c of UpdateTask i t \<Rightarrow> pt_id t = None \<or> pt_id t = Some i | _ \<Rightarrow> True)"

definition keepsHearingId :: "'n Command \<Rightarrow> bool" where
  "keepsHearingId c =
     (case c of UpdateHearing i h \<Rightarrow> ph_id h = None \<or> ph_id h = Some i | _ \<Rightarrow> True)"

subsection \<open>Conditions on a date\<close>

text \<open>
  The fields of a \<^verbatim>\<open>Date\<close> object are those of a day of the calendar and of an instant
  within it. The month before that of a date is given as its year and its month.
\<close>

definition validDate :: "Date \<Rightarrow> bool" where
  "validDate d \<longleftrightarrow>
     0 \<le> date_month d \<and> date_month d \<le> 11
     \<and> 1 \<le> date_date d \<and> date_date d \<le> DaysInMonth (date_year d) (date_month d)
     \<and> 0 \<le> date_time d \<and> date_time d < msPerDay"

definition previousMonth :: "Date \<Rightarrow> int \<times> int" where
  "previousMonth d =
     (if date_month d = 0 then (date_year d - 1, 11) else (date_year d, date_month d - 1))"

definition daysInPreviousMonth :: "Date \<Rightarrow> int" where
  "daysInPreviousMonth d = DaysInMonth (fst (previousMonth d)) (snd (previousMonth d))"

subsection \<open>Concrete stores and inputs\<close>

definition spJurisdiction :: Jurisdiction where
  "spJurisdiction = \<lparr> jur_id = 1, jur_name = ''Foro Central Civil'', jur_state = ''SP'',
     jur_city = ''Sao Paulo'', jur_address = ''s/n'' \<rparr>"

definition civilProfessional :: Professional where
  "civilProfessional = \<lparr> prof_id = 1, prof_name = ''Dr. Carlos Mendes'',
     prof_email = ''carlos@juriscrm.com'', prof_phone = ''11987654321'',
     prof_type = ''lawyer'', prof_specialization = ''Civil'',
     prof_jurisdictions = [''SP''], prof_userId = None, prof_active = Some True \<rparr>"

definition statelessJurisdiction :: Jurisdiction where
  "statelessJurisdiction = spJurisdiction \<lparr> jur_state := [] \<rparr>"

definition statelessProfessional :: Professional where
  "statelessProfessional = civilProfessional \<lparr> prof_jurisdictions := [[]] \<rparr>"

definition civilHearing :: InsertHearing where
  "civilHearing = \<lparr> ih_processNumber = ''2023.0123.4567'', ih_jurisdictionId = 1,
     ih_date = ''2023-06-10'', ih_time = ''14:30'', ih_type = ''Instruction'',
     ih_area = ''Civil'', ih_professionalId = Some 1, ih_status = Some ''pending'',
     ih_notes = None \<rparr>"

definition paidPayment :: "int InsertPayment" where
  "paidPayment = \<lparr> ipay_hearingId = 1, ipay_professionalId = 1, ipay_amount = 300,
     ipay_status = Some ''paid'', ipay_paymentDate = None, ipay_notes = None \<rparr>"

definition pendingPayment :: "int InsertPayment" where
  "pendingPayment = paidPayment \<lparr> ipay_amount := 120, ipay_status := Some ''pending'' \<rparr>"

definition pendingMinutesTask :: InsertTask where
  "pendingMinutesTask = \<lparr> it_title = ''Upload de Ata Pendente'', it_description = ''Proc. 1'',
     it_status = Some ''pending'', it_type = ''upload_minutes'', it_relatedId = Some 1,
     it_dueDate = None \<rparr>"

definition assignTask :: InsertTask where
  "assignTask = \<lparr> it_title = ''Designar Advogado'', it_description = ''Proc. 3'',
     it_status = Some ''pending'', it_type = ''assign_professional'', it_relatedId = Some 3,
     it_dueDate = None \<rparr>"

definition oneHearingStore :: "int MemStorage" where
  "oneHearingStore = snd (performAll [CreateHearing 0 civilHearing] emptyStorage)"

definition minutesStore :: "int MemStorage" where
  "minutesStore =
     snd (performAll [CreateHearing 0 civilHearing, CreateTask 0 pendingMinutesTask,
            CreateTask 0 assignTask] emptyStorage)"

text \<open>The first task is given the \<^verbatim>\<open>id\<close> of the second by an update.\<close>

definition renumberedTaskStore :: "int MemStorage" where
  "renumberedTaskStore =
     snd (performAll [UpdateTask 1 (noTaskChange \<lparr> pt_id := Some 2 \<rparr>)] minutesStore)"

definition pendingPaymentStore :: "int MemStorage" where
  "pendingPaymentStore =
     snd (performAll [CreateHearing 0 civilHearing, CreateHearing 0 civilHearing,
            CreatePayment 0 pendingPayment] emptyStorage)"

definition emptyStatusChange :: "int PartialPayment" where
  "emptyStatusChange = noPaymentChange \<lparr> ppay_status := Some [] \<rparr>"

definition moveAndPayChange :: "int PartialPayment" where
  "moveAndPayChange =
     noPaymentChange \<lparr> ppay_hearingId := Some 2, ppay_status := Some ''paid'' \<rparr>"

definition moveAndClearChange :: "int PartialPayment" where
  "moveAndClearChange =
     noPaymentChange \<lparr> ppay_hearingId := Some 2, ppay_status := Some [] \<rparr>"

text \<open>
  A server in UTC, and five instants of 2025 at noon: 1, 3, 30 and 31 March and 1 April.
\<close>

definition utc :: "int \<Rightarrow> int" where
  "utc t = 0"

definition march31 :: Date where
  "march31 = \<lparr> date_year = 2025, date_month = 2, date_date = 31, date_time = 43200000 \<rparr>"

definition march1 :: Date where
  "march1 = march31 \<lparr> date_date := 1 \<rparr>"

definition march3 :: Date where
  "march3 = march31 \<lparr> date_date := 3 \<rparr>"

definition march30 :: Date where
  "march30 = march31 \<lparr> date_date := 30 \<rparr>"

definition april1 :: Date where
  "april1 = march31 \<lparr> date_month := 3, date_date := 1 \<rparr>"

text \<open>
  Two payments, a pending one of 120 created ten days before noon of 31 March and a paid
  one of 300 created two days before it.
\<close>

definition twoPaymentStore :: "int MemStorage" where
  "twoPaymentStore =
     snd (performAll [CreatePayment (getTime utc march31 - days 10) pendingPayment,
            CreatePayment (getTime utc march31 - days 2) paidPayment] emptyStorage)"

text \<open>
  Two payments, a pending one of 120 created at noon of 1 March and a paid one of 300
  created at noon of 30 March.
\<close>

definition marchStore :: "int MemStorage" where
  "marchStore =
     snd (performAll [CreatePayment (getTime utc march1) pendingPayment,
            CreatePayment (getTime utc march30) paidPayment] emptyStorage)"

text \<open>
  One entity of every updatable type, each stored under identifier 1, and the five
  entities as the store holds them (the hearing mirrors the payment's amount).
\<close>

definition civilInsertProfessional :: InsertProfessional where
  "civilInsertProfessional = \<lparr> ip_name = ''Dr. Carlos Mendes'',
     ip_email = ''carlos@juriscrm.com'', ip_phone = ''11987654321'', ip_type = ''lawyer'',
     ip_specialization = ''Civil'', ip_jurisdictions = [''SP'', ''RJ''], ip_userId = None,
     ip_active = Some True \<rparr>"

definition spInsertJurisdiction :: InsertJurisdiction where
  "spInsertJurisdiction = \<lparr> ij_name = ''Foro Central Civil'', ij_state = ''SP'',
     ij_city = ''Sao Paulo'', ij_address = ''s/n'' \<rparr>"

definition fullStore :: "int MemStorage" where
  "fullStore =
     snd (performAll [CreateProfessional civilInsertProfessional,
            CreateJurisdiction spInsertJurisdiction, CreateHearing 0 civilHearing,
            CreatePayment 0 pendingPayment, CreateTask 0 pendingMinutesTask] emptyStorage)"

definition storedProfessional :: Professional where
  "storedProfessional =
     fst (createProfessional civilInsertProfessional (emptyStorage :: int MemStorage))"

definition storedJurisdiction :: Jurisdiction where
  "storedJurisdiction =
     fst (createJurisdiction spInsertJurisdiction (emptyStorage :: int MemStorage))"

definition createdHearing :: "int Hearing" where
  "createdHearing = fst (createHearing 0 civilHearing emptyStorage)"

definition storedHearing :: "int Hearing" where
  "storedHearing = createdHearing \<lparr> hear_paymentAmount := Some 120 \<rparr>"

definition storedPayment :: "int Payment" where
  "storedPayment = fst (createPayment 0 pendingPayment emptyStorage)"

definition storedTask :: Task where
  "storedTask = fst (createTask 0 pendingMinutesTask (emptyStorage :: int MemStorage))"

definition deactivateChange :: PartialProfessional where
  "deactivateChange = \<lparr> pp_id = None, pp_name = None, pp_email = None, pp_phone = None,
     pp_type = None, pp_specialization = None, pp_jurisdictions = None, pp_userId = None,
     pp_active = Some False \<rparr>"

definition moveCityChange :: PartialJurisdiction where
  "moveCityChange = \<lparr> pj_id = None, pj_name = None, pj_state = Some ''RJ'',
     pj_city = Some ''Rio de Janeiro'', pj_address = None \<rparr>"

definition paidChange :: "int PartialPayment" where
  "paidChange = noPaymentChange \<lparr> ppay_status := Some ''paid'' \<rparr>"

section \<open>Properties\<close>

subsection \<open>Maps and references\<close>

lemma Map_get_set: "Map_get (Map_set m k v) k' = (if k' = k then Some v else Map_get m k')"
  by (simp add: Map_get_def Map_set_def)

lemma Map_get_delete:
  "Map_get (snd (Map_delete m k)) k' = (if k' = k then None else Map_get m k')"
  by (simp add: Map_get_def Map_delete_def)

lemma Map_get_entry: "Map_get m k = Some v \<longleftrightarrow> (k, v) \<in> set (DAList.impl_of m)"
  by (simp add: Map_get_def DAList.lookup.rep_eq)

lemma Map_values_entry: "v \<in> set (Map_values m) \<longleftrightarrow> (\<exists>k. Map_get m k = Some v)"
  by (force simp: Map_values_def Map_get_entry)

lemma le_foldr_max: "(r::nat) \<in> set xs \<Longrightarrow> r \<le> foldr max xs 0"
  by (induction xs) auto

text \<open>The reference of a new hearing object is held by no entry of the map.\<close>

lemma newRef_fresh: "Map_get m k = Some r \<Longrightarrow> r \<noteq> newRef m"
proof -
  assume "Map_get m k = Some r"
  then have "r \<in> set (Map_values m)"
    by (auto simp: Map_values_entry)
  then have "r \<le> foldr max (Map_values m) 0"
    by (rule le_foldr_max)
  then show ?thesis by (simp add: newRef_def)
qed

text \<open>Rules that evaluate the operations on a store written out as a sequence of calls.\<close>

lemmas Map_eval =
  Map_get_def Map_set_def Map_delete_def Map_keys_def Map_values_def
  DAList.lookup.rep_eq DAList.update.rep_eq DAList.delete.rep_eq DAList.empty.rep_eq

lemmas store_eval =
  emptyStorage_def newRef_def Let_def split_def spread_def spreadOpt_def truthy_def
  createUser_def createProfessional_def updateProfessional_def deleteProfessional_def
  createJurisdiction_def updateJurisdiction_def deleteJurisdiction_def
  createHearing_def updateHearing_def deleteHearing_def
  createPayment_def updatePayment_def deletePayment_def
  createTask_def updateTask_def deleteTask_def
  getUser_def getProfessional_def getJurisdiction_def getHearing_def getPayment_def getTask_def
  getProfessionals_def getJurisdictions_def getHearings_def getPayments_def getTasks_def
  mergeProfessional_def mergeJurisdiction_def mergeHearing_def mergePayment_def mergeTask_def
  noHearingChange_def noTaskChange_def noPaymentChange_def minutesChange_def
  completedChange_def isPendingTask_def

lemmas example_defs =
  civilHearing_def paidPayment_def pendingPayment_def pendingMinutesTask_def assignTask_def
  oneHearingStore_def minutesStore_def renumberedTaskStore_def pendingPaymentStore_def
  emptyStatusChange_def moveAndPayChange_def moveAndClearChange_def
  twoPaymentStore_def marchStore_def civilInsertProfessional_def
  spInsertJurisdiction_def fullStore_def deactivateChange_def moveCityChange_def
  paidChange_def storedProfessional_def storedJurisdiction_def createdHearing_def
  storedHearing_def storedPayment_def storedTask_def

subsection \<open>Sequences of calls and the conditions they keep\<close>

lemma performAll_Cons:
  "performAll (c # cs) s
     = ((case fst (perform c s) of None \<Rightarrow> [] | Some x \<Rightarrow> [x])
          @ fst (performAll cs (snd (perform c s))),
        snd (performAll cs (snd (perform c s))))"
  by (simp add: split_def Let_def)

lemma performAll_append:
  "snd (performAll (xs @ ys) s) = snd (performAll ys (snd (performAll xs s)))"
  by (induction xs arbitrary: s) (simp_all add: performAll_Cons del: performAll.simps(2))

lemma forEach_Cons: "forEach f (x # xs) s = forEach f xs (snd (f x s))"
  by (simp add: forEach_def)

lemma performAll_createJurisdictions:
  "snd (performAll (map CreateJurisdiction xs) s) = forEach createJurisdiction xs s"
  by (induction xs arbitrary: s)
     (simp_all add: performAll_Cons forEach_Cons split_def Let_def del: performAll.simps(2),
      simp add: forEach_def)

lemma performAll_createProfessionals:
  "snd (performAll (map CreateProfessional xs) s) = forEach createProfessional xs s"
  by (induction xs arbitrary: s)
     (simp_all add: performAll_Cons forEach_Cons split_def Let_def del: performAll.simps(2),
      simp add: forEach_def)

lemma performAll_createHearings:
  "snd (performAll (map (CreateHearing now) xs) s) = forEach (createHearing now) xs s"
  by (induction xs arbitrary: s)
     (simp_all add: performAll_Cons forEach_Cons split_def Let_def del: performAll.simps(2),
      simp add: forEach_def)

lemma performAll_createTasks:
  "snd (performAll (map (CreateTask now) xs) s) = forEach (createTask now) xs s"
  by (induction xs arbitrary: s)
     (simp_all add: performAll_Cons forEach_Cons split_def Let_def del: performAll.simps(2),
      simp add: forEach_def)

text \<open>
  The store that the constructor builds is the empty store after the seed calls, so
  whatever holds after every sequence of calls on the empty store holds for every
  store the program ever has.
\<close>

lemma newMemStorage_commands:
  "newMemStorage now today tomorrow
     = snd (performAll (seedCommands now today tomorrow) emptyStorage)"
  by (simp add: newMemStorage_def seedData_def seedCommands_def split_def Let_def
        performAll_Cons performAll_append performAll_createJurisdictions
        performAll_createProfessionals performAll_createHearings performAll_createTasks
        del: performAll.simps(2))

lemma paymentIdsIssued_iff:
  "paymentIdsIssued s \<longleftrightarrow>
     (\<forall>k v. Map_get (payments s) k = Some v \<longrightarrow> k < paymentIdCounter s)"
  by (auto simp: paymentIdsIssued_def Map_keys_def list_all_iff Map_get_entry)

lemma hearingIdsMatchKeys_iff:
  "hearingIdsMatchKeys s \<longleftrightarrow>
     (\<forall>k r. Map_get (hearings s) k = Some r \<longrightarrow> hear_id (hearingObjects s r) = k)"
  by (auto simp: hearingIdsMatchKeys_def list_all_iff Map_get_entry)

lemma taskIdsMatchKeys_iff:
  "taskIdsMatchKeys s \<longleftrightarrow> (\<forall>k t. Map_get (tasks s) k = Some t \<longrightarrow> task_id t = k)"
  by (auto simp: taskIdsMatchKeys_def list_all_iff Map_get_entry)

lemma emptyStorage_conditions:
  "paymentIdsIssued emptyStorage" "hearingIdsMatchKeys emptyStorage"
  "taskIdsMatchKeys emptyStorage"
  by (simp_all add: paymentIdsIssued_def hearingIdsMatchKeys_def taskIdsMatchKeys_def
        emptyStorage_def Map_keys_def DAList.empty.rep_eq)

lemma paymentIdsIssued_perform:
  "paymentIdsIssued s \<Longrightarrow> paymentIdsIssued (snd (perform c s))"
  unfolding paymentIdsIssued_iff
  by (cases c)
     (auto simp: createUser_def createProfessional_def updateProfessional_def
        deleteProfessional_def createJurisdiction_def updateJurisdiction_def
        deleteJurisdiction_def createHearing_def updateHearing_def deleteHearing_def
        createPayment_def updatePayment_def deletePayment_def createTask_def updateTask_def
        deleteTask_def Let_def split_def Map_get_set Map_get_delete
        split: option.splits if_splits)

lemma paymentIdsIssued_performAll:
  "paymentIdsIssued s \<Longrightarrow> paymentIdsIssued (snd (performAll cs s))"
  by (induction cs arbitrary: s)
     (simp_all add: performAll_Cons paymentIdsIssued_perform del: performAll.simps(2))

lemma taskIdsMatchKeys_perform:
  "taskIdsMatchKeys s \<Longrightarrow> keepsTaskId c \<Longrightarrow> taskIdsMatchKeys (snd (perform c s))"
  unfolding taskIdsMatchKeys_iff
  by (cases c)
     (auto simp: createUser_def createProfessional_def updateProfessional_def
        deleteProfessional_def createJurisdiction_def updateJurisdiction_def
        deleteJurisdiction_def createHearing_def updateHearing_def deleteHearing_def
        createPayment_def updatePayment_def deletePayment_def createTask_def updateTask_def
        deleteTask_def Let_def split_def Map_get_set Map_get_delete keepsTaskId_def
        mergeTask_def spread_def
        split: option.splits if_splits)

lemma taskIdsMatchKeys_performAll:
  "taskIdsMatchKeys s \<Longrightarrow> list_all keepsTaskId cs
     \<Longrightarrow> taskIdsMatchKeys (snd (performAll cs s))"
  by (induction cs arbitrary: s)
     (simp_all add: performAll_Cons taskIdsMatchKeys_perform del: performAll.simps(2))

lemma hearingIdsMatchKeys_createHearing:
  "hearingIdsMatchKeys s \<Longrightarrow> hearingIdsMatchKeys (snd (createHearing now h s))"
  unfolding hearingIdsMatchKeys_iff
  by (auto simp: createHearing_def Let_def Map_get_set dest: newRef_fresh)

lemma hearingIdsMatchKeys_updateHearing:
  "hearingIdsMatchKeys s \<Longrightarrow> ph_id p = None \<or> ph_id p = Some i
     \<Longrightarrow> hearingIdsMatchKeys (snd (updateHearing i p s))"
  unfolding hearingIdsMatchKeys_iff
  by (auto simp: updateHearing_def getHearing_def Let_def Map_get_set mergeHearing_def
        spread_def split: option.splits dest: newRef_fresh)

lemma hearingIdsMatchKeys_deleteHearing:
  "hearingIdsMatchKeys s \<Longrightarrow> hearingIdsMatchKeys (snd (deleteHearing i s))"
  unfolding hearingIdsMatchKeys_iff
  by (auto simp: deleteHearing_def split_def Let_def Map_get_delete split: if_splits)

lemma hearingIdsMatchKeys_createPayment:
  "hearingIdsMatchKeys s \<Longrightarrow> hearingIdsMatchKeys (snd (createPayment now p s))"
  unfolding hearingIdsMatchKeys_iff
  by (auto simp: createPayment_def Let_def Map_get_set split: option.splits if_splits)

lemma hearingIdsMatchKeys_updatePayment:
  "hearingIdsMatchKeys s \<Longrightarrow> hearingIdsMatchKeys (snd (updatePayment i p s))"
  unfolding hearingIdsMatchKeys_iff
  by (auto simp: updatePayment_def Let_def Map_get_set split: option.splits if_splits)

lemma hearingIdsMatchKeys_perform:
  "hearingIdsMatchKeys s \<Longrightarrow> keepsHearingId c \<Longrightarrow> hearingIdsMatchKeys (snd (perform c s))"
proof (cases c)
  case (CreateHearing now h)
  then show "hearingIdsMatchKeys s \<Longrightarrow> ?thesis"
    using hearingIdsMatchKeys_createHearing [of s now h] by (simp add: split_def Let_def)
next
  case (UpdateHearing i p)
  then show "hearingIdsMatchKeys s \<Longrightarrow> keepsHearingId c \<Longrightarrow> ?thesis"
    using hearingIdsMatchKeys_updateHearing [of s p i] by (simp add: keepsHearingId_def)
next
  case (DeleteHearing i)
  then show "hearingIdsMatchKeys s \<Longrightarrow> ?thesis"
    using hearingIdsMatchKeys_deleteHearing [of s i] by simp
next
  case (CreatePayment now p)
  then show "hearingIdsMatchKeys s \<Longrightarrow> ?thesis"
    using hearingIdsMatchKeys_createPayment [of s now p] by (simp add: split_def Let_def)
next
  case (UpdatePayment i p)
  then show "hearingIdsMatchKeys s \<Longrightarrow> ?thesis"
    using hearingIdsMatchKeys_updatePayment [of s i p] by simp
qed (simp_all add: hearingIdsMatchKeys_def createUser_def createProfessional_def
      updateProfessional_def deleteProfessional_def createJurisdiction_def
      updateJurisdiction_def deleteJurisdiction_def deletePayment_def createTask_def
      updateTask_def deleteTask_def Let_def split_def split: option.splits)

lemma hearingIdsMatchKeys_performAll:
  "hearingIdsMatchKeys s \<Longrightarrow> list_all keepsHearingId cs
     \<Longrightarrow> hearingIdsMatchKeys (snd (performAll cs s))"
  by (induction cs arbitrary: s)
     (simp_all add: performAll_Cons hearingIdsMatchKeys_perform del: performAll.simps(2))

text \<open>
  The three conditions on the stores the program can have: the first on every store,
  the other two as long as no update overwrites an \<^verbatim>\<open>id\<close>. The seed calls are all
  creates.
\<close>

lemma paymentIdsIssued_reachable: "paymentIdsIssued (snd (performAll cs emptyStorage))"
  by (rule paymentIdsIssued_performAll) (rule emptyStorage_conditions)

lemma hearingIdsMatchKeys_reachable:
  "list_all keepsHearingId cs \<Longrightarrow> hearingIdsMatchKeys (snd (performAll cs emptyStorage))"
  by (rule hearingIdsMatchKeys_performAll) (rule emptyStorage_conditions)

lemma taskIdsMatchKeys_reachable:
  "list_all keepsTaskId cs \<Longrightarrow> taskIdsMatchKeys (snd (performAll cs emptyStorage))"
  by (rule taskIdsMatchKeys_performAll) (rule emptyStorage_conditions)

lemma seedCommands_keep_ids:
  "list_all keepsHearingId (seedCommands now today tomorrow)"
  "list_all keepsTaskId (seedCommands now today tomorrow)"
  by (auto simp: seedCommands_def list_all_iff keepsHearingId_def keepsTaskId_def)

subsection \<open>Eligibility\<close>

text \<open>
  What the filter of the hearing form computes. With both query results loaded, a
  professional \<open>P\<close> is listed for a selection (jurisdiction identifier, area) exactly
  when \<open>P\<close> is in the list of professionals, a jurisdiction and an area are selected,
  \<open>P\<close> is active, its specialization is the selected area, and the jurisdiction with
  the selected identifier exists and has a non-empty state that is one of \<open>P\<close>'s
  jurisdictions. The result is empty when no jurisdiction or no area is selected, when
  no jurisdiction has the selected identifier, and when that jurisdiction's state is
  the empty string.
\<close>

lemma eligibleProfessionals_iff:
  "(P \<in> set (eligibleProfessionals (Some ps) (Some js) jid area) \<longleftrightarrow>
      P \<in> set ps \<and> jid \<noteq> 0 \<and> area \<noteq> [] \<and> prof_active P = Some True
      \<and> prof_specialization P = area
      \<and> (\<exists>J. findJurisdiction js jid = Some J \<and> jur_state J \<noteq> []
             \<and> jur_state J \<in> set (prof_jurisdictions P)))
   \<and> (jid = 0 \<or> area = [] \<or> findJurisdiction js jid = None
        \<or> (\<exists>J. findJurisdiction js jid = Some J \<and> jur_state J = [])
      \<longrightarrow> eligibleProfessionals (Some ps) (Some js) jid area = [])"
  by (auto simp: eligibleProfessionals_def isEligible_def getJurisdictionState_def
           split: option.splits if_splits)

text \<open>
  The scenario of the specification: one jurisdiction in state SP and one active Civil
  professional practising in SP. Selecting that jurisdiction and Civil lists the
  professional; with no jurisdiction selected the list is empty.
\<close>

lemma eligibleProfessionals_scenario:
  "civilProfessional \<in> set (eligibleProfessionals (Some [civilProfessional])
       (Some [spJurisdiction]) 1 ''Civil'')
   \<and> eligibleProfessionals (Some [civilProfessional]) (Some [spJurisdiction]) 0 ''Civil'' = []"
  using eligibleProfessionals_iff [of civilProfessional "[civilProfessional]"
          "[spJurisdiction]" 1 "''Civil''"]
        eligibleProfessionals_iff [of civilProfessional "[civilProfessional]"
          "[spJurisdiction]" 0 "''Civil''"]
  by (simp add: civilProfessional_def spJurisdiction_def findJurisdiction_def)

text \<open>
  What the filter of the hearings page computes. With both query results loaded, a
  professional \<open>P\<close> is listed for a hearing exactly when \<open>P\<close> is in the list of
  professionals, \<open>P\<close> is active, its specialization is the hearing's area, and the
  jurisdiction of the hearing exists and has a state that is one of \<open>P\<close>'s
  jurisdictions; the result is empty when that jurisdiction does not exist.
\<close>

lemma getEligibleProfessionals_iff:
  "(P \<in> set (getEligibleProfessionals (Some ps) (Some js) h) \<longleftrightarrow>
      P \<in> set ps \<and> prof_active P = Some True \<and> prof_specialization P = hear_area h
      \<and> (\<exists>J. findJurisdiction js (hear_jurisdictionId h) = Some J
             \<and> jur_state J \<in> set (prof_jurisdictions P)))
   \<and> (findJurisdiction js (hear_jurisdictionId h) = None
      \<longrightarrow> getEligibleProfessionals (Some ps) (Some js) h = [])"
  by (cases "findJurisdiction js (hear_jurisdictionId h)")
     (auto simp: getEligibleProfessionals_def)

text \<open>
  The two filters give the same list for a hearing with a jurisdiction and an area whose
  jurisdiction, if it exists, has a non-empty state.
\<close>

lemma eligibleProfessionals_agree:
  assumes "hear_jurisdictionId h \<noteq> 0" and "hear_area h \<noteq> []"
    and "\<And>J. findJurisdiction js (hear_jurisdictionId h) = Some J \<Longrightarrow> jur_state J \<noteq> []"
  shows "eligibleProfessionals (Some ps) (Some js) (hear_jurisdictionId h) (hear_area h)
     = getEligibleProfessionals (Some ps) (Some js) h"
proof (cases "findJurisdiction js (hear_jurisdictionId h)")
  case None
  have "filter (isEligible (Some js) (hear_jurisdictionId h) (hear_area h)) ps
      = filter (\<lambda>p. False) ps"
    by (rule filter_cong) (simp_all add: isEligible_def getJurisdictionState_def None)
  then show ?thesis
    by (simp add: eligibleProfessionals_def getEligibleProfessionals_def None)
next
  case (Some J)
  have "filter (isEligible (Some js) (hear_jurisdictionId h) (hear_area h)) ps
      = filter (\<lambda>p. prof_active p = Some True \<and> jur_state J \<in> set (prof_jurisdictions p)
                   \<and> prof_specialization p = hear_area h) ps"
    using assms(1,2) assms(3) [OF Some]
    by (intro filter_cong) (simp_all add: isEligible_def getJurisdictionState_def Some)
  then show ?thesis
    by (simp add: eligibleProfessionals_def getEligibleProfessionals_def Some)
qed

text \<open>
  Claim C1 fails on the code of the hearing form for a jurisdiction whose state is the
  empty string. The store holds that jurisdiction and an active Civil professional whose
  jurisdictions contain the empty string. The professional meets the three conditions
  of the claim for the selection of that jurisdiction and Civil, and the form lists
  nobody: it takes an empty state for a missing one. For a hearing of that jurisdiction
  and area the filter of the hearings page lists the professional.
\<close>

theorem eligibleProfessionals_empty_state_not_listed:
  "prof_active statelessProfessional = Some True
   \<and> prof_specialization statelessProfessional = ''Civil''
   \<and> findJurisdiction [statelessJurisdiction] 1 = Some statelessJurisdiction
   \<and> jur_state statelessJurisdiction \<in> set (prof_jurisdictions statelessProfessional)
   \<and> eligibleProfessionals (Some [statelessProfessional]) (Some [statelessJurisdiction])
        1 ''Civil'' = []
   \<and> hear_jurisdictionId createdHearing = 1
   \<and> hear_area createdHearing = ''Civil''
   \<and> getEligibleProfessionals (Some [statelessProfessional]) (Some [statelessJurisdiction])
        createdHearing = [statelessProfessional]"
  by (simp add: statelessProfessional_def statelessJurisdiction_def civilProfessional_def
        spJurisdiction_def findJurisdiction_def eligibleProfessionals_def isEligible_def
        getJurisdictionState_def getEligibleProfessionals_def createdHearing_def
        civilHearing_def createHearing_def emptyStorage_def Let_def)

subsection \<open>Identifiers\<close>

lemma perform_counters:
  "counterOf ty (snd (perform c s))
     = (case fst (perform c s) of
          None \<Rightarrow> counterOf ty s
        | Some r \<Rightarrow> if fst r = ty then counterOf ty s + 1 else counterOf ty s)"
  by (cases c; cases ty)
     (simp_all add: createUser_def createProfessional_def updateProfessional_def
        deleteProfessional_def createJurisdiction_def updateJurisdiction_def
        deleteJurisdiction_def createHearing_def updateHearing_def deleteHearing_def
        createPayment_def updatePayment_def deletePayment_def createTask_def updateTask_def
        deleteTask_def Let_def split_def split: option.split)

lemma perform_assigns_counter:
  "fst (perform c s) = Some r \<Longrightarrow> snd r = counterOf (fst r) s"
  by (cases c)
     (auto simp: createUser_def createProfessional_def createJurisdiction_def
        createHearing_def createPayment_def createTask_def Let_def split_def
        split: option.splits)

text \<open>
  From any store, the identifiers handed out for one entity type are the consecutive
  integers from the type's counter up to one below its final value.
\<close>

lemma performAll_ids_from:
  "assignedIds ty (fst (performAll cs s))
       = [counterOf ty s .. counterOf ty (snd (performAll cs s)) - 1]
   \<and> counterOf ty s \<le> counterOf ty (snd (performAll cs s))"
proof (induction cs arbitrary: s)
  case Nil
  show ?case by (simp add: assignedIds_def)
next
  case (Cons c cs)
  define s1 where "s1 = snd (perform c s)"
  define r where "r = fst (perform c s)"
  have p: "perform c s = (r, s1)" by (simp add: r_def s1_def)
  note IH = Cons.IH [of s1]
  have c1: "counterOf ty s1
     = (case r of None \<Rightarrow> counterOf ty s
        | Some x \<Rightarrow> if fst x = ty then counterOf ty s + 1 else counterOf ty s)"
    unfolding s1_def r_def by (rule perform_counters)
  show ?case
  proof (cases r)
    case None
    then show ?thesis using IH c1 p
      by (simp add: performAll_Cons assignedIds_def del: performAll.simps)
  next
    case (Some x)
    have x: "snd x = counterOf (fst x) s"
      using perform_assigns_counter [of c s x] Some r_def by simp
    show ?thesis
    proof (cases "fst x = ty")
      case True
      have "counterOf ty s \<le> counterOf ty (snd (performAll cs s1)) - 1"
        using IH c1 Some True by simp
      then have "[counterOf ty s .. counterOf ty (snd (performAll cs s1)) - 1]
          = counterOf ty s # [counterOf ty s + 1 .. counterOf ty (snd (performAll cs s1)) - 1]"
        by (rule upto_rec1)
      then show ?thesis using IH c1 p Some True x
        by (simp add: performAll_Cons assignedIds_def del: performAll.simps)
    next
      case False
      then show ?thesis using IH c1 p Some
        by (simp add: performAll_Cons assignedIds_def del: performAll.simps)
    qed
  qed
qed

text \<open>
  Claim C4. Take any sequence of create, update and delete calls on the store as the
  constructor initialises it (the seed data is the beginning of such a sequence). For
  every entity type, the identifiers that the create calls hand out are, in order,
  \<open>1, 2, \<dots>, n\<close>: they start at 1, each is greater than all handed out before, and none
  is handed out twice, whatever was deleted in between; the type's counter ends one
  above the last identifier.
\<close>

theorem ids_assigned_in_sequence:
  "assignedIds ty (fst (performAll cs emptyStorage))
     = [1 .. int (length (assignedIds ty (fst (performAll cs emptyStorage))))]
   \<and> sorted_wrt (<) (assignedIds ty (fst (performAll cs emptyStorage)))
   \<and> counterOf ty (snd (performAll cs emptyStorage))
       = 1 + int (length (assignedIds ty (fst (performAll cs emptyStorage))))"
proof -
  let ?ids = "assignedIds ty (fst (performAll cs emptyStorage))"
  let ?c = "counterOf ty (snd (performAll cs emptyStorage))"
  have e: "counterOf ty (emptyStorage :: 'a MemStorage) = 1"
    by (cases ty) (simp_all add: emptyStorage_def)
  have ids: "?ids = [1 .. ?c - 1]" and le: "1 \<le> ?c"
    using performAll_ids_from [of ty cs "emptyStorage :: 'a MemStorage"] e by simp_all
  have len: "int (length ?ids) = ?c - 1"
    using le by (simp add: ids)
  have "sorted_wrt (<) [1 .. ?c - 1]"
    by (simp add: strict_sorted_iff)
  then show ?thesis using ids len by simp
qed

subsection \<open>Updating\<close>

lemma getHearing_updateHearing:
  assumes "getHearing s i = Some e"
  shows "getHearing (snd (updateHearing i p s)) k
           = (if k = i then Some (mergeHearing e p) else getHearing s k)"
proof (cases "Map_get (hearings s) k")
  case None
  then show ?thesis using assms
    by (auto simp: updateHearing_def Let_def getHearing_def Map_get_set)
next
  case (Some r)
  then show ?thesis using assms newRef_fresh [OF Some]
    by (auto simp: updateHearing_def Let_def getHearing_def Map_get_set)
qed

lemma mergeProfessional_fields:
  "prof_id (mergeProfessional pe pp) = (case pp_id pp of None \<Rightarrow> prof_id pe | Some v \<Rightarrow> v)
   \<and> prof_name (mergeProfessional pe pp) = (case pp_name pp of None \<Rightarrow> prof_name pe | Some v \<Rightarrow> v)
   \<and> prof_email (mergeProfessional pe pp) = (case pp_email pp of None \<Rightarrow> prof_email pe | Some v \<Rightarrow> v)
   \<and> prof_phone (mergeProfessional pe pp) = (case pp_phone pp of None \<Rightarrow> prof_phone pe | Some v \<Rightarrow> v)
   \<and> prof_type (mergeProfessional pe pp) = (case pp_type pp of None \<Rightarrow> prof_type pe | Some v \<Rightarrow> v)
   \<and> prof_specialization (mergeProfessional pe pp) = (case pp_specialization pp of None \<Rightarrow> prof_specialization pe | Some v \<Rightarrow> v)
   \<and> prof_jurisdictions (mergeProfessional pe pp) = (case pp_jurisdictions pp of None \<Rightarrow> prof_jurisdictions pe | Some v \<Rightarrow> v)
   \<and> prof_userId (mergeProfessional pe pp) = (case pp_userId pp of None \<Rightarrow> prof_userId pe | Some v \<Rightarrow> v)
   \<and> prof_active (mergeProfessional pe pp) = (case pp_active pp of None \<Rightarrow> prof_active pe | Some v \<Rightarrow> Some v)"
  by (simp add: mergeProfessional_def spread_def spreadOpt_def)

lemma updateProfessional_merges:
  "(getProfessional s i = None \<longrightarrow> updateProfessional i pp s = (None, s))
   \<and> (getProfessional s i = Some pe \<longrightarrow>
       fst (updateProfessional i pp s) = Some (mergeProfessional pe pp)
       \<and> getProfessional (snd (updateProfessional i pp s)) i = Some (mergeProfessional pe pp))"
  by (simp add: updateProfessional_def getProfessional_def Let_def Map_get_set)

lemma mergeJurisdiction_fields:
  "jur_id (mergeJurisdiction je jp) = (case pj_id jp of None \<Rightarrow> jur_id je | Some v \<Rightarrow> v)
   \<and> jur_name (mergeJurisdiction je jp) = (case pj_name jp of None \<Rightarrow> jur_name je | Some v \<Rightarrow> v)
   \<and> jur_state (mergeJurisdiction je jp) = (case pj_state jp of None \<Rightarrow> jur_state je | Some v \<Rightarrow> v)
   \<and> jur_city (mergeJurisdiction je jp) = (case pj_city jp of None \<Rightarrow> jur_city je | Some v \<Rightarrow> v)
   \<and> jur_address (mergeJurisdiction je jp) = (case pj_address jp of None \<Rightarrow> jur_address je | Some v \<Rightarrow> v)"
  by (simp add: mergeJurisdiction_def spread_def spreadOpt_def)

lemma updateJurisdiction_merges:
  "(getJurisdiction s i = None \<longrightarrow> updateJurisdiction i jp s = (None, s))
   \<and> (getJurisdiction s i = Some je \<longrightarrow>
       fst (updateJurisdiction i jp s) = Some (mergeJurisdiction je jp)
       \<and> getJurisdiction (snd (updateJurisdiction i jp s)) i = Some (mergeJurisdiction je jp))"
  by (simp add: updateJurisdiction_def getJurisdiction_def Let_def Map_get_set)

lemma mergeHearing_fields:
  "hear_id (mergeHearing he hp) = (case ph_id hp of None \<Rightarrow> hear_id he | Some v \<Rightarrow> v)
   \<and> hear_processNumber (mergeHearing he hp) = (case ph_processNumber hp of None \<Rightarrow> hear_processNumber he | Some v \<Rightarrow> v)
   \<and> hear_jurisdictionId (mergeHearing he hp) = (case ph_jurisdictionId hp of None \<Rightarrow> hear_jurisdictionId he | Some v \<Rightarrow> v)
   \<and> hear_date (mergeHearing he hp) = (case ph_date hp of None \<Rightarrow> hear_date he | Some v \<Rightarrow> v)
   \<and> hear_time (mergeHearing he hp) = (case ph_time hp of None \<Rightarrow> hear_time he | Some v \<Rightarrow> v)
   \<and> hear_type (mergeHearing he hp) = (case ph_type hp of None \<Rightarrow> hear_type he | Some v \<Rightarrow> v)
   \<and> hear_area (mergeHearing he hp) = (case ph_area hp of None \<Rightarrow> hear_area he | Some v \<Rightarrow> v)
   \<and> hear_professionalId (mergeHearing he hp) = (case ph_professionalId hp of None \<Rightarrow> hear_professionalId he | Some v \<Rightarrow> v)
   \<and> hear_status (mergeHearing he hp) = (case ph_status hp of None \<Rightarrow> hear_status he | Some v \<Rightarrow> Some v)
   \<and> hear_notes (mergeHearing he hp) = (case ph_notes hp of None \<Rightarrow> hear_notes he | Some v \<Rightarrow> v)
   \<and> hear_minutesUploaded (mergeHearing he hp) = (case ph_minutesUploaded hp of None \<Rightarrow> hear_minutesUploaded he | Some v \<Rightarrow> v)
   \<and> hear_minutesUrl (mergeHearing he hp) = (case ph_minutesUrl hp of None \<Rightarrow> hear_minutesUrl he | Some v \<Rightarrow> v)
   \<and> hear_paymentStatus (mergeHearing he hp) = (case ph_paymentStatus hp of None \<Rightarrow> hear_paymentStatus he | Some v \<Rightarrow> Some v)
   \<and> hear_paymentAmount (mergeHearing he hp) = (case ph_paymentAmount hp of None \<Rightarrow> hear_paymentAmount he | Some v \<Rightarrow> v)
   \<and> hear_createdAt (mergeHearing he hp) = (case ph_createdAt hp of None \<Rightarrow> hear_createdAt he | Some v \<Rightarrow> v)"
  by (simp add: mergeHearing_def spread_def spreadOpt_def)

lemma updateHearing_merges:
  "(getHearing s i = None \<longrightarrow> updateHearing i hp s = (None, s))
   \<and> (getHearing s i = Some he \<longrightarrow>
       fst (updateHearing i hp s) = Some (mergeHearing he hp)
       \<and> getHearing (snd (updateHearing i hp s)) i = Some (mergeHearing he hp))"
proof (intro conjI impI)
  show "getHearing s i = None \<Longrightarrow> updateHearing i hp s = (None, s)"
    by (simp add: updateHearing_def)
next
  assume h: "getHearing s i = Some he"
  show "fst (updateHearing i hp s) = Some (mergeHearing he hp)"
    using h by (simp add: updateHearing_def Let_def)
  show "getHearing (snd (updateHearing i hp s)) i = Some (mergeHearing he hp)"
    using getHearing_updateHearing [OF h] by simp
qed

lemma mergePayment_fields:
  "pay_id (mergePayment ye yp) = (case ppay_id yp of None \<Rightarrow> pay_id ye | Some v \<Rightarrow> v)
   \<and> pay_hearingId (mergePayment ye yp) = (case ppay_hearingId yp of None \<Rightarrow> pay_hearingId ye | Some v \<Rightarrow> v)
   \<and> pay_professionalId (mergePayment ye yp) = (case ppay_professionalId yp of None \<Rightarrow> pay_professionalId ye | Some v \<Rightarrow> v)
   \<and> pay_amount (mergePayment ye yp) = (case ppay_amount yp of None \<Rightarrow> pay_amount ye | Some v \<Rightarrow> v)
   \<and> pay_status (mergePayment ye yp) = (case ppay_status yp of None \<Rightarrow> pay_status ye | Some v \<Rightarrow> Some v)
   \<and> pay_paymentDate (mergePayment ye yp) = (case ppay_paymentDate yp of None \<Rightarrow> pay_paymentDate ye | Some v \<Rightarrow> v)
   \<and> pay_notes (mergePayment ye yp) = (case ppay_notes yp of None \<Rightarrow> pay_notes ye | Some v \<Rightarrow> v)
   \<and> pay_createdAt (mergePayment ye yp) = (case ppay_createdAt yp of None \<Rightarrow> pay_createdAt ye | Some v \<Rightarrow> v)"
  by (simp add: mergePayment_def spread_def spreadOpt_def)

lemma updatePayment_merges:
  "(getPayment s i = None \<longrightarrow> updatePayment i yp s = (None, s))
   \<and> (getPayment s i = Some ye \<longrightarrow>
       fst (updatePayment i yp s) = Some (mergePayment ye yp)
       \<and> getPayment (snd (updatePayment i yp s)) i = Some (mergePayment ye yp))"
  by (simp add: updatePayment_def getPayment_def Let_def Map_get_set split: option.split)

lemma mergeTask_fields:
  "task_id (mergeTask te tp) = (case pt_id tp of None \<Rightarrow> task_id te | Some v \<Rightarrow> v)
   \<and> task_title (mergeTask te tp) = (case pt_title tp of None \<Rightarrow> task_title te | Some v \<Rightarrow> v)
   \<and> task_description (mergeTask te tp) = (case pt_description tp of None \<Rightarrow> task_description te | Some v \<Rightarrow> v)
   \<and> task_status (mergeTask te tp) = (case pt_status tp of None \<Rightarrow> task_status te | Some v \<Rightarrow> Some v)
   \<and> task_type (mergeTask te tp) = (case pt_type tp of None \<Rightarrow> task_type te | Some v \<Rightarrow> v)
   \<and> task_relatedId (mergeTask te tp) = (case pt_relatedId tp of None \<Rightarrow> task_relatedId te | Some v \<Rightarrow> v)
   \<and> task_dueDate (mergeTask te tp) = (case pt_dueDate tp of None \<Rightarrow> task_dueDate te | Some v \<Rightarrow> v)
   \<and> task_createdAt (mergeTask te tp) = (case pt_createdAt tp of None \<Rightarrow> task_createdAt te | Some v \<Rightarrow> v)"
  by (simp add: mergeTask_def spread_def spreadOpt_def)

lemma updateTask_merges:
  "(getTask s i = None \<longrightarrow> updateTask i tp s = (None, s))
   \<and> (getTask s i = Some te \<longrightarrow>
       fst (updateTask i tp s) = Some (mergeTask te tp)
       \<and> getTask (snd (updateTask i tp s)) i = Some (mergeTask te tp))"
  by (simp add: updateTask_def getTask_def Let_def Map_get_set)

text \<open>
  Claim C5. For professionals, jurisdictions, hearings, payments and tasks alike: an
  update of an identifier that is not stored returns nothing and leaves the whole store
  as it was; an update of a stored identifier returns the merged entity and stores it
  under the same identifier. In the merged entity every property that the partial
  carries has the partial's value, and every property that the partial does not carry
  has the value of the stored entity.
\<close>

theorem update_merges_partial:
  "((getProfessional s i = None \<longrightarrow> updateProfessional i pp s = (None, s))
    \<and> (getProfessional s i = Some pe \<longrightarrow>
       fst (updateProfessional i pp s) = Some (mergeProfessional pe pp)
       \<and> getProfessional (snd (updateProfessional i pp s)) i = Some (mergeProfessional pe pp)))
   \<and> ((getJurisdiction s i = None \<longrightarrow> updateJurisdiction i jp s = (None, s))
    \<and> (getJurisdiction s i = Some je \<longrightarrow>
       fst (updateJurisdiction i jp s) = Some (mergeJurisdiction je jp)
       \<and> getJurisdiction (snd (updateJurisdiction i jp s)) i = Some (mergeJurisdiction je jp)))
   \<and> ((getHearing s i = None \<longrightarrow> updateHearing i hp s = (None, s))
    \<and> (getHearing s i = Some he \<longrightarrow>
       fst (updateHearing i hp s) = Some (mergeHearing he hp)
       \<and> getHearing (snd (updateHearing i hp s)) i = Some (mergeHearing he hp)))
   \<and> ((getPayment s i = None \<longrightarrow> updatePayment i yp s = (None, s))
    \<and> (getPayment s i = Some ye \<longrightarrow>
       fst (updatePayment i yp s) = Some (mergePayment ye yp)
       \<and> getPayment (snd (updatePayment i yp s)) i = Some (mergePayment ye yp)))
   \<and> ((getTask s i = None \<longrightarrow> updateTask i tp s = (None, s))
    \<and> (getTask s i = Some te \<longrightarrow>
       fst (updateTask i tp s) = Some (mergeTask te tp)
       \<and> getTask (snd (updateTask i tp s)) i = Some (mergeTask te tp)))
   \<and> (prof_id (mergeProfessional pe pp) = (case pp_id pp of None \<Rightarrow> prof_id pe | Some v \<Rightarrow> v)
    \<and> prof_name (mergeProfessional pe pp) = (case pp_name pp of None \<Rightarrow> prof_name pe | Some v \<Rightarrow> v)
    \<and> prof_email (mergeProfessional pe pp) = (case pp_email pp of None \<Rightarrow> prof_email pe | Some v \<Rightarrow> v)
    \<and> prof_phone (mergeProfessional pe pp) = (case pp_phone pp of None \<Rightarrow> prof_phone pe | Some v \<Rightarrow> v)
    \<and> prof_type (mergeProfessional pe pp) = (case pp_type pp of None \<Rightarrow> prof_type pe | Some v \<Rightarrow> v)
    \<and> prof_specialization (mergeProfessional pe pp) = (case pp_specialization pp of None \<Rightarrow> prof_specialization pe | Some v \<Rightarrow> v)
    \<and> prof_jurisdictions (mergeProfessional pe pp) = (case pp_jurisdictions pp of None \<Rightarrow> prof_jurisdictions pe | Some v \<Rightarrow> v)
    \<and> prof_userId (mergeProfessional pe pp) = (case pp_userId pp of None \<Rightarrow> prof_userId pe | Some v \<Rightarrow> v)
    \<and> prof_active (mergeProfessional pe pp) = (case pp_active pp of None \<Rightarrow> prof_active pe | Some v \<Rightarrow> Some v))
   \<and> (jur_id (mergeJurisdiction je jp) = (case pj_id jp of None \<Rightarrow> jur_id je | Some v \<Rightarrow> v)
    \<and> jur_name (mergeJurisdiction je jp) = (case pj_name jp of None \<Rightarrow> jur_name je | Some v \<Rightarrow> v)
    \<and> jur_state (mergeJurisdiction je jp) = (case pj_state jp of None \<Rightarrow> jur_state je | Some v \<Rightarrow> v)
    \<and> jur_city (mergeJurisdiction je jp) = (case pj_city jp of None \<Rightarrow> jur_city je | Some v \<Rightarrow> v)
    \<and> jur_address (mergeJurisdiction je jp) = (case pj_address jp of None \<Rightarrow> jur_address je | Some v \<Rightarrow> v))
   \<and> (hear_id (mergeHearing he hp) = (case ph_id hp of None \<Rightarrow> hear_id he | Some v \<Rightarrow> v)
    \<and> hear_processNumber (mergeHearing he hp) = (case ph_processNumber hp of None \<Rightarrow> hear_processNumber he | Some v \<Rightarrow> v)
    \<and> hear_jurisdictionId (mergeHearing he hp) = (case ph_jurisdictionId hp of None \<Rightarrow> hear_jurisdictionId he | Some v \<Rightarrow> v)
    \<and> hear_date (mergeHearing he hp) = (case ph_date hp of None \<Rightarrow> hear_date he | Some v \<Rightarrow> v)
    \<and> hear_time (mergeHearing he hp) = (case ph_time hp of None \<Rightarrow> hear_time he | Some v \<Rightarrow> v)
    \<and> hear_type (mergeHearing he hp) = (case ph_type hp of None \<Rightarrow> hear_type he | Some v \<Rightarrow> v)
    \<and> hear_area (mergeHearing he hp) = (case ph_area hp of None \<Rightarrow> hear_area he | Some v \<Rightarrow> v)
    \<and> hear_professionalId (mergeHearing he hp) = (case ph_professionalId hp of None \<Rightarrow> hear_professionalId he | Some v \<Rightarrow> v)
    \<and> hear_status (mergeHearing he hp) = (case ph_status hp of None \<Rightarrow> hear_status he | Some v \<Rightarrow> Some v)
    \<and> hear_notes (mergeHearing he hp) = (case ph_notes hp of None \<Rightarrow> hear_notes he | Some v \<Rightarrow> v)
    \<and> hear_minutesUploaded (mergeHearing he hp) = (case ph_minutesUploaded hp of None \<Rightarrow> hear_minutesUploaded he | Some v \<Rightarrow> v)
    \<and> hear_minutesUrl (mergeHearing he hp) = (case ph_minutesUrl hp of None \<Rightarrow> hear_minutesUrl he | Some v \<Rightarrow> v)
    \<and> hear_paymentStatus (mergeHearing he hp) = (case ph_paymentStatus hp of None \<Rightarrow> hear_paymentStatus he | Some v \<Rightarrow> Some v)
    \<and> hear_paymentAmount (mergeHearing he hp) = (case ph_paymentAmount hp of None \<Rightarrow> hear_paymentAmount he | Some v \<Rightarrow> v)
    \<and> hear_createdAt (mergeHearing he hp) = (case ph_createdAt hp of None \<Rightarrow> hear_createdAt he | Some v \<Rightarrow> v))
   \<and> (pay_id (mergePayment ye yp) = (case ppay_id yp of None \<Rightarrow> pay_id ye | Some v \<Rightarrow> v)
    \<and> pay_hearingId (mergePayment ye yp) = (case ppay_hearingId yp of None \<Rightarrow> pay_hearingId ye | Some v \<Rightarrow> v)
    \<and> pay_professionalId (mergePayment ye yp) = (case ppay_professionalId yp of None \<Rightarrow> pay_professionalId ye | Some v \<Rightarrow> v)
    \<and> pay_amount (mergePayment ye yp) = (case ppay_amount yp of None \<Rightarrow> pay_amount ye | Some v \<Rightarrow> v)
    \<and> pay_status (mergePayment ye yp) = (case ppay_status yp of None \<Rightarrow> pay_status ye | Some v \<Rightarrow> Some v)
    \<and> pay_paymentDate (mergePayment ye yp) = (case ppay_paymentDate yp of None \<Rightarrow> pay_paymentDate ye | Some v \<Rightarrow> v)
    \<and> pay_notes (mergePayment ye yp) = (case ppay_notes yp of None \<Rightarrow> pay_notes ye | Some v \<Rightarrow> v)
    \<and> pay_createdAt (mergePayment ye yp) = (case ppay_createdAt yp of None \<Rightarrow> pay_createdAt ye | Some v \<Rightarrow> v))
   \<and> (task_id (mergeTask te tp) = (case pt_id tp of None \<Rightarrow> task_id te | Some v \<Rightarrow> v)
    \<and> task_title (mergeTask te tp) = (case pt_title tp of None \<Rightarrow> task_title te | Some v \<Rightarrow> v)
    \<and> task_description (mergeTask te tp) = (case pt_description tp of None \<Rightarrow> task_description te | Some v \<Rightarrow> v)
    \<and> task_status (mergeTask te tp) = (case pt_status tp of None \<Rightarrow> task_status te | Some v \<Rightarrow> Some v)
    \<and> task_type (mergeTask te tp) = (case pt_type tp of None \<Rightarrow> task_type te | Some v \<Rightarrow> v)
    \<and> task_relatedId (mergeTask te tp) = (case pt_relatedId tp of None \<Rightarrow> task_relatedId te | Some v \<Rightarrow> v)
    \<and> task_dueDate (mergeTask te tp) = (case pt_dueDate tp of None \<Rightarrow> task_dueDate te | Some v \<Rightarrow> v)
    \<and> task_createdAt (mergeTask te tp) = (case pt_createdAt tp of None \<Rightarrow> task_createdAt te | Some v \<Rightarrow> v))"
  by (rule conjI [OF updateProfessional_merges
       conjI [OF updateJurisdiction_merges
       conjI [OF updateHearing_merges
       conjI [OF updatePayment_merges
       conjI [OF updateTask_merges
       conjI [OF mergeProfessional_fields
       conjI [OF mergeJurisdiction_fields
       conjI [OF mergeHearing_fields
       conjI [OF mergePayment_fields
       mergeTask_fields]]]]]]]]])

text \<open>
  In a store that holds one entity of each type under identifier 1: each update of
  identifier 1 returns and stores the changed property and keeps another one, and each
  update of identifier 2 returns nothing and leaves the store as it was.
\<close>

theorem update_merges_partial_witness:
  "map_option prof_active (fst (updateProfessional 1 deactivateChange fullStore))
     = Some (Some False)
   \<and> map_option prof_name
        (getProfessional (snd (updateProfessional 1 deactivateChange fullStore)) 1)
       = Some ''Dr. Carlos Mendes''
   \<and> updateProfessional 2 deactivateChange fullStore = (None, fullStore)
   \<and> map_option jur_city (fst (updateJurisdiction 1 moveCityChange fullStore))
       = Some ''Rio de Janeiro''
   \<and> map_option jur_name
        (getJurisdiction (snd (updateJurisdiction 1 moveCityChange fullStore)) 1)
       = Some ''Foro Central Civil''
   \<and> updateJurisdiction 2 moveCityChange fullStore = (None, fullStore)
   \<and> map_option hear_minutesUploaded
        (fst (updateHearing 1 (minutesChange ''/uploads/ata.pdf'') fullStore)) = Some True
   \<and> map_option hear_area
        (getHearing (snd (updateHearing 1 (minutesChange ''/uploads/ata.pdf'') fullStore)) 1)
       = Some ''Civil''
   \<and> updateHearing 2 (minutesChange ''/uploads/ata.pdf'') fullStore = (None, fullStore)
   \<and> map_option pay_status (fst (updatePayment 1 paidChange fullStore)) = Some (Some ''paid'')
   \<and> map_option pay_amount (getPayment (snd (updatePayment 1 paidChange fullStore)) 1)
       = Some 120
   \<and> updatePayment 2 paidChange fullStore = (None, fullStore)
   \<and> map_option task_status (fst (updateTask 1 completedChange fullStore))
       = Some (Some ''completed'')
   \<and> map_option task_type (getTask (snd (updateTask 1 completedChange fullStore)) 1)
       = Some ''upload_minutes''
   \<and> updateTask 2 completedChange fullStore = (None, fullStore)"
proof -
  note present = update_merges_partial [where s = fullStore and i = 1
      and pp = deactivateChange and pe = storedProfessional
      and jp = moveCityChange and je = storedJurisdiction
      and hp = "minutesChange ''/uploads/ata.pdf''" and he = storedHearing
      and yp = paidChange and ye = storedPayment
      and tp = completedChange and te = storedTask]
  note absent = update_merges_partial [where s = fullStore and i = 2
      and pp = deactivateChange and jp = moveCityChange
      and hp = "minutesChange ''/uploads/ata.pdf''" and yp = paidChange
      and tp = completedChange]
  have p1: "getProfessional fullStore 1 = Some storedProfessional"
    and p2: "getProfessional fullStore 2 = None"
    and j1: "getJurisdiction fullStore 1 = Some storedJurisdiction"
    and j2: "getJurisdiction fullStore 2 = None"
    and h1: "getHearing fullStore 1 = Some storedHearing"
    and h2: "getHearing fullStore 2 = None"
    and y1: "getPayment fullStore 1 = Some storedPayment"
    and y2: "getPayment fullStore 2 = None"
    and t1: "getTask fullStore 1 = Some storedTask"
    and t2: "getTask fullStore 2 = None"
    by code_simp+
  note P = present [THEN conjunct1, THEN conjunct2, THEN mp, OF p1]
  note J = present [THEN conjunct2, THEN conjunct1, THEN conjunct2, THEN mp, OF j1]
  note H = present [THEN conjunct2, THEN conjunct2, THEN conjunct1, THEN conjunct2,
      THEN mp, OF h1]
  note Y = present [THEN conjunct2, THEN conjunct2, THEN conjunct2, THEN conjunct1,
      THEN conjunct2, THEN mp, OF y1]
  note T = present [THEN conjunct2, THEN conjunct2, THEN conjunct2, THEN conjunct2,
      THEN conjunct1, THEN conjunct2, THEN mp, OF t1]
  note P' = absent [THEN conjunct1, THEN conjunct1, THEN mp, OF p2]
  note J' = absent [THEN conjunct2, THEN conjunct1, THEN conjunct1, THEN mp, OF j2]
  note H' = absent [THEN conjunct2, THEN conjunct2, THEN conjunct1, THEN conjunct1,
      THEN mp, OF h2]
  note Y' = absent [THEN conjunct2, THEN conjunct2, THEN conjunct2, THEN conjunct1,
      THEN conjunct1, THEN mp, OF y2]
  note T' = absent [THEN conjunct2, THEN conjunct2, THEN conjunct2, THEN conjunct2,
      THEN conjunct1, THEN conjunct1, THEN mp, OF t2]
  have m: "prof_active (mergeProfessional storedProfessional deactivateChange) = Some False"
    "prof_name (mergeProfessional storedProfessional deactivateChange) = ''Dr. Carlos Mendes''"
    "jur_city (mergeJurisdiction storedJurisdiction moveCityChange) = ''Rio de Janeiro''"
    "jur_name (mergeJurisdiction storedJurisdiction moveCityChange) = ''Foro Central Civil''"
    "hear_minutesUploaded (mergeHearing storedHearing (minutesChange ''/uploads/ata.pdf''))"
    "hear_area (mergeHearing storedHearing (minutesChange ''/uploads/ata.pdf'')) = ''Civil''"
    "pay_status (mergePayment storedPayment paidChange) = Some ''paid''"
    "pay_amount (mergePayment storedPayment paidChange) = 120"
    "task_status (mergeTask storedTask completedChange) = Some ''completed''"
    "task_type (mergeTask storedTask completedChange) = ''upload_minutes''"
    by code_simp+
  show ?thesis
    by (simp only: P J H Y T P' J' H' Y' T' m option.map simp_thms)
qed

subsection \<open>Deleting\<close>

text \<open>
  Claim C8. \<^verbatim>\<open>deleteJurisdiction(j)\<close> returns true exactly when a jurisdiction was stored
  under \<open>j\<close>; afterwards \<open>j\<close> is absent and every other jurisdiction is as before; every
  hearing, whatever its \<^verbatim>\<open>jurisdictionId\<close>, is as before, and so is the list of hearings;
  no component of the store other than the map of jurisdictions changes.
\<close>

theorem deleteJurisdiction_no_cascade:
  "fst (deleteJurisdiction j s) = (getJurisdiction s j \<noteq> None)
   \<and> getJurisdiction (snd (deleteJurisdiction j s)) k
       = (if k = j then None else getJurisdiction s k)
   \<and> getHearing (snd (deleteJurisdiction j s)) h = getHearing s h
   \<and> getHearings (snd (deleteJurisdiction j s)) = getHearings s
   \<and> snd (deleteJurisdiction j s)
       = s\<lparr> jurisdictions := jurisdictions (snd (deleteJurisdiction j s)) \<rparr>"
  by (simp add: deleteJurisdiction_def getJurisdiction_def getHearing_def getHearings_def
        Map_get_def Map_delete_def)

text \<open>
  Claim C10. \<^verbatim>\<open>deletePayment(i)\<close> returns whether a payment was stored under \<open>i\<close> and
  removes that entry only: every other payment, every hearing (with the payment status
  and amount it mirrors) and every task is as before, and no component of the store
  other than the map of payments changes.
\<close>

theorem deletePayment_only_payment:
  "fst (deletePayment i s) = (getPayment s i \<noteq> None)
   \<and> getPayment (snd (deletePayment i s)) k = (if k = i then None else getPayment s k)
   \<and> getHearing (snd (deletePayment i s)) h = getHearing s h
   \<and> getTask (snd (deletePayment i s)) t = getTask s t
   \<and> snd (deletePayment i s) = s\<lparr> payments := payments (snd (deletePayment i s)) \<rparr>"
  by (simp add: deletePayment_def getPayment_def getHearing_def getTask_def
        Map_get_def Map_delete_def)

subsection \<open>Payments and the hearing that owns them\<close>

lemma getHearing_createPayment_present:
  assumes "getHearing s (ipay_hearingId pay) = Some e"
  shows "getHearing (snd (createPayment now pay s)) (ipay_hearingId pay)
           = Some (e\<lparr> hear_paymentStatus := ipay_status pay,
                       hear_paymentAmount := Some (ipay_amount pay) \<rparr>)"
  using assms
  by (auto simp: createPayment_def getHearing_def Let_def Map_get_set split: option.splits)

lemma createPayment_absent:
  assumes "getHearing s (ipay_hearingId pay) = None"
  shows "hearings (snd (createPayment now pay s)) = hearings s
         \<and> hearingObjects (snd (createPayment now pay s)) = hearingObjects s"
  using assms
  by (auto simp: createPayment_def getHearing_def Let_def split: option.splits)

lemma paymentIdsIssued_fresh:
  assumes "paymentIdsIssued s"
  shows "getPayment s (paymentIdCounter s) = None"
proof (cases "getPayment s (paymentIdCounter s)")
  case None
  then show ?thesis .
next
  case (Some v)
  then have "paymentIdCounter s < paymentIdCounter s"
    using assms by (auto simp: paymentIdsIssued_iff getPayment_def)
  then show ?thesis by simp
qed

text \<open>
  Claim C2. \<^verbatim>\<open>createPayment\<close> builds the payment from the supplied properties, the
  counter's value as \<^verbatim>\<open>id\<close> and the current instant as \<^verbatim>\<open>createdAt\<close>, advances the
  counter and stores the payment under that identifier, leaving every other payment as
  it was, whether or not the hearing exists. The identifier is fresh: in a store whose
  payment keys all came from the counter, no payment was stored under it. If the hearing
  does not exist, no hearing changes. If it exists, afterwards it is the same hearing
  with \<^verbatim>\<open>paymentStatus\<close> set to the payment's status and \<^verbatim>\<open>paymentAmount\<close> to the
  payment's amount, every other property unchanged.
\<close>

theorem createPayment_stores_and_mirrors:
  assumes "createPayment now payment s = (newPayment, s')"
  shows "newPayment = \<lparr> pay_id = paymentIdCounter s, pay_hearingId = ipay_hearingId payment,
            pay_professionalId = ipay_professionalId payment,
            pay_amount = ipay_amount payment, pay_status = ipay_status payment,
            pay_paymentDate = ipay_paymentDate payment, pay_notes = ipay_notes payment,
            pay_createdAt = now \<rparr>
     \<and> paymentIdCounter s' = paymentIdCounter s + 1
     \<and> getPayment s' k = (if k = paymentIdCounter s then Some newPayment else getPayment s k)
     \<and> (paymentIdsIssued s \<longrightarrow> getPayment s (paymentIdCounter s) = None)
     \<and> (getHearing s (ipay_hearingId payment) = None \<longrightarrow>
           hearings s' = hearings s \<and> hearingObjects s' = hearingObjects s)
     \<and> (getHearing s (ipay_hearingId payment) = Some e \<longrightarrow>
           getHearing s' (ipay_hearingId payment)
             = Some (e\<lparr> hear_paymentStatus := ipay_status payment,
                         hear_paymentAmount := Some (ipay_amount payment) \<rparr>))"
proof -
  have s': "s' = snd (createPayment now payment s)"
    and n: "newPayment = fst (createPayment now payment s)"
    using assms by simp_all
  have 1: "newPayment = \<lparr> pay_id = paymentIdCounter s, pay_hearingId = ipay_hearingId payment,
            pay_professionalId = ipay_professionalId payment,
            pay_amount = ipay_amount payment, pay_status = ipay_status payment,
            pay_paymentDate = ipay_paymentDate payment, pay_notes = ipay_notes payment,
            pay_createdAt = now \<rparr>"
    unfolding n by (simp add: createPayment_def Let_def split: option.split)
  have 2: "paymentIdCounter s' = paymentIdCounter s + 1"
    unfolding s' by (simp add: createPayment_def Let_def split: option.split)
  have 3: "getPayment s' k = (if k = paymentIdCounter s then Some newPayment else getPayment s k)"
    unfolding s' 1
    by (simp add: createPayment_def getPayment_def Let_def Map_get_set split: option.split)
  show ?thesis
    using 1 2 3 paymentIdsIssued_fresh [of s] createPayment_absent [of s payment now]
      getHearing_createPayment_present [of s payment e now]
    unfolding s' by blast
qed

text \<open>
  The scenario of the specification: a hearing starts with payment status pending; a
  paid payment of 300 for it is stored under the fresh identifier 1 with its creation
  instant, and the hearing then shows status paid and amount 300. On the empty store,
  where hearing 1 does not exist, the payment is stored all the same.
\<close>

theorem createPayment_stores_and_mirrors_witness:
  "paymentIdsIssued oneHearingStore
   \<and> getHearing oneHearingStore 1 = Some createdHearing
   \<and> hear_paymentStatus createdHearing = Some ''pending''
   \<and> getPayment oneHearingStore 1 = None
   \<and> map_option pay_createdAt (getPayment (snd (createPayment 5 paidPayment oneHearingStore)) 1)
       = Some 5
   \<and> getHearing (snd (createPayment 5 paidPayment oneHearingStore)) 1
       = Some (createdHearing \<lparr> hear_paymentStatus := Some ''paid'',
                                 hear_paymentAmount := Some 300 \<rparr>)
   \<and> getHearing emptyStorage 1 = (None :: int Hearing option)
   \<and> map_option pay_id (getPayment (snd (createPayment 5 paidPayment emptyStorage)) 1)
       = Some 1"
proof -
  note T = createPayment_stores_and_mirrors
    [OF surjective_pairing [of "createPayment 5 paidPayment oneHearingStore"],
      where k = 1 and e = createdHearing]
  note T0 = createPayment_stores_and_mirrors
    [OF surjective_pairing [of "createPayment 5 paidPayment emptyStorage"], where k = 1]
  have v: "ipay_hearingId paidPayment = 1" "ipay_status paidPayment = Some ''paid''"
    "ipay_amount paidPayment = 300" "paymentIdCounter oneHearingStore = 1"
    "paymentIdCounter (emptyStorage :: int MemStorage) = 1"
    "hear_paymentStatus createdHearing = Some ''pending''"
    by code_simp+
  have i: "paymentIdsIssued oneHearingStore"
    by code_simp
  have h: "getHearing oneHearingStore 1 = Some createdHearing"
    by code_simp
  have h0: "getHearing emptyStorage 1 = (None :: int Hearing option)"
    by code_simp
  note new = T [THEN conjunct1]
  note stored = T [THEN conjunct2, THEN conjunct2, THEN conjunct1]
  note fresh = T [THEN conjunct2, THEN conjunct2, THEN conjunct2, THEN conjunct1, THEN mp,
      OF i]
  note mirrored = T [THEN conjunct2, THEN conjunct2, THEN conjunct2, THEN conjunct2,
      THEN conjunct2, THEN mp, unfolded v, OF h]
  note new0 = T0 [THEN conjunct1]
  note stored0 = T0 [THEN conjunct2, THEN conjunct2, THEN conjunct1]
  have c: "map_option pay_createdAt
        (getPayment (snd (createPayment 5 paidPayment oneHearingStore)) 1) = Some 5"
    unfolding stored v by (simp add: new)
  have c0: "map_option pay_id (getPayment (snd (createPayment 5 paidPayment emptyStorage)) 1)
        = Some 1"
    unfolding stored0 v by (simp add: new0 v)
  show ?thesis
    using i h v(6) fresh [unfolded v] c mirrored h0 c0 by (intro conjI)
qed

text \<open>
  What \<^verbatim>\<open>updatePayment\<close> does to the hearings of an existing payment \<open>p\<close>. The guard
  \<open>propagates p u\<close> holds exactly when the partial carries a non-empty status that
  differs from the stored one.
\<close>

lemma propagates_iff:
  "propagates p u \<longleftrightarrow> (\<exists>st. ppay_status u = Some st \<and> st \<noteq> [] \<and> pay_status p \<noteq> Some st)"
  by (auto simp: propagates_def truthy_def split: option.splits)

lemma updatePayment_no_propagation:
  assumes "getPayment s i = Some p" "\<not> propagates p u"
  shows "snd (updatePayment i u s) = s\<lparr> payments := Map_set (payments s) i (mergePayment p u) \<rparr>"
  using assms by (auto simp: updatePayment_def getPayment_def propagates_def Let_def)

lemma updatePayment_tasks: "tasks (snd (updatePayment i u s)) = tasks s"
  by (simp add: updatePayment_def Let_def split: option.split)

lemma putPayment_store:
  "snd (putPayment idParam result s)
     = (case idParam of
          None \<Rightarrow> s
        | Some i \<Rightarrow> (case result of Inl m \<Rightarrow> s | Inr d \<Rightarrow> snd (updatePayment i d s)))"
  by (auto simp: putPayment_def split: option.split sum.split prod.split)

lemma putPayment_tasks: "tasks (snd (putPayment idParam result s)) = tasks s"
  by (simp add: putPayment_store updatePayment_tasks split: option.split sum.split)

lemma updatePayment_owner:
  assumes "getPayment s i = Some p" "propagates p u"
    "getHearing s (pay_hearingId p) = Some e"
  shows "getHearing (snd (updatePayment i u s)) (pay_hearingId p)
           = Some (e\<lparr> hear_paymentStatus := ppay_status u \<rparr>)"
  using assms
  by (auto simp: updatePayment_def getPayment_def getHearing_def propagates_def Let_def
        Map_get_set split: option.splits)

lemma updatePayment_owner_amount:
  assumes "getPayment s i = Some p"
  shows "map_option hear_paymentAmount (getHearing (snd (updatePayment i u s)) (pay_hearingId p))
           = map_option hear_paymentAmount (getHearing s (pay_hearingId p))"
  using assms
  by (auto simp: updatePayment_def getPayment_def getHearing_def Let_def
        Map_get_set split: option.splits)

text \<open>
  For a partial that carries a non-empty status different from the stored one, the
  hearing stored under the payment's \<^verbatim>\<open>hearingId\<close> gets that status. For a partial
  that carries no status or the stored status, no hearing object and no entry of the
  map of hearings changes. In every case the owning hearing keeps its payment amount,
  and neither \<^verbatim>\<open>updatePayment\<close> nor the \<^verbatim>\<open>PUT\<close> handler touches a task.
\<close>

lemma updatePayment_effect:
  assumes "getPayment s i = Some p"
  shows "(ppay_status u = Some st \<and> st \<noteq> [] \<and> pay_status p \<noteq> Some st
            \<and> getHearing s (pay_hearingId p) = Some e \<longrightarrow>
          getHearing (snd (updatePayment i u s)) (pay_hearingId p)
            = Some (e\<lparr> hear_paymentStatus := Some st \<rparr>))
     \<and> (ppay_status u = None \<or> ppay_status u = pay_status p \<longrightarrow>
          hearings (snd (updatePayment i u s)) = hearings s
          \<and> hearingObjects (snd (updatePayment i u s)) = hearingObjects s)
     \<and> map_option hear_paymentAmount (getHearing (snd (updatePayment i u s)) (pay_hearingId p))
          = map_option hear_paymentAmount (getHearing s (pay_hearingId p))
     \<and> tasks (snd (updatePayment i u s)) = tasks s
     \<and> tasks (snd (putPayment (Some i) (Inr u) s)) = tasks s"
proof -
  have a: "ppay_status u = Some st \<and> st \<noteq> [] \<and> pay_status p \<noteq> Some st
            \<and> getHearing s (pay_hearingId p) = Some e \<longrightarrow>
          getHearing (snd (updatePayment i u s)) (pay_hearingId p)
            = Some (e\<lparr> hear_paymentStatus := Some st \<rparr>)"
    using updatePayment_owner [OF assms, of u e] by (auto simp: propagates_iff)
  have "ppay_status u = None \<or> ppay_status u = pay_status p \<Longrightarrow> \<not> propagates p u"
    by (auto simp: propagates_def truthy_def)
  then have b: "ppay_status u = None \<or> ppay_status u = pay_status p \<longrightarrow>
          hearings (snd (updatePayment i u s)) = hearings s
          \<and> hearingObjects (snd (updatePayment i u s)) = hearingObjects s"
    using updatePayment_no_propagation [OF assms, of u] by auto
  show ?thesis
    using a b updatePayment_owner_amount [OF assms, of u] updatePayment_tasks [of i u s]
      putPayment_tasks [of "Some i" "Inr u" s]
    by blast
qed

text \<open>
  Claim C6 fails on the code for the empty status. A payment of a hearing is stored as
  pending and the hearing mirrors pending. An update of the payment whose partial
  carries the empty string as status stores the empty status in the payment, a status
  different from the stored one, and leaves the hearing's payment status at pending,
  through the store method and through the \<^verbatim>\<open>PUT\<close> handler alike: the guard tests
  the new status for truthiness, and the empty string is falsy.
\<close>

theorem updatePayment_empty_status_not_mirrored:
  "map_option pay_status (getPayment pendingPaymentStore 1) = Some (Some ''pending'')
   \<and> map_option hear_paymentStatus (getHearing pendingPaymentStore 1) = Some (Some ''pending'')
   \<and> map_option pay_status
        (getPayment (snd (updatePayment 1 emptyStatusChange pendingPaymentStore)) 1)
       = Some (Some [])
   \<and> map_option hear_paymentStatus
        (getHearing (snd (updatePayment 1 emptyStatusChange pendingPaymentStore)) 1)
       = Some (Some ''pending'')
   \<and> map_option hear_paymentStatus
        (getHearing (snd (putPayment (Some 1) (Inr emptyStatusChange) pendingPaymentStore)) 1)
       = Some (Some ''pending'')"
  by (simp add: example_defs store_eval Map_eval putPayment_def)

lemma hearingIdsMatchKeysD:
  "hearingIdsMatchKeys s \<Longrightarrow> Map_get (hearings s) k = Some r
     \<Longrightarrow> hear_id (hearingObjects s r) = k"
  by (simp add: hearingIdsMatchKeys_iff)

lemma updatePayment_hearings_consistent:
  assumes "getPayment s i = Some p" "propagates p u" "hearingIdsMatchKeys s"
  shows "getHearing (snd (updatePayment i u s)) k
           = (if k = pay_hearingId p
              then map_option (\<lambda>e. e\<lparr> hear_paymentStatus := ppay_status u \<rparr>) (getHearing s k)
              else getHearing s k)"
proof (cases "Map_get (hearings s) (pay_hearingId p)")
  case None
  then show ?thesis using assms
    by (auto simp: updatePayment_def getPayment_def getHearing_def propagates_def Let_def)
next
  case (Some r)
  have idr: "hear_id (hearingObjects s r) = pay_hearingId p"
    using hearingIdsMatchKeysD [OF assms(3) Some] .
  show ?thesis
  proof (cases "Map_get (hearings s) k")
    case None
    then show ?thesis using assms Some idr
      by (auto simp: updatePayment_def getPayment_def getHearing_def propagates_def Let_def
            Map_get_set)
  next
    case (Some r')
    have "k \<noteq> pay_hearingId p \<Longrightarrow> r' \<noteq> r"
      using hearingIdsMatchKeysD [OF assms(3) Some] idr by auto
    then show ?thesis using assms Some \<open>Map_get (hearings s) (pay_hearingId p) = Some r\<close> idr
      by (auto simp: updatePayment_def getPayment_def getHearing_def propagates_def Let_def
            Map_get_set)
  qed
qed

text \<open>
  An update that moves a payment to another hearing and changes its status. Take a store
  in which every hearing carries the key it is stored under as its \<^verbatim>\<open>id\<close>
  (\<open>hearingIdsMatchKeys_perform\<close>), and an update of an existing payment whose partial
  carries a new \<^verbatim>\<open>hearingId\<close> and a non-empty status different from the stored one.
  Afterwards the payment refers to the new hearing; the hearing under the payment's
  old \<^verbatim>\<open>hearingId\<close>, if there is one, is the same hearing with \<^verbatim>\<open>paymentStatus\<close> set to
  the new status; and the hearing under the new \<^verbatim>\<open>hearingId\<close> is as it was.
\<close>

lemma updatePayment_targets_old_hearing:
  assumes "getPayment s i = Some p"
    and "ppay_hearingId u = Some newHearingId" and "newHearingId \<noteq> pay_hearingId p"
    and "ppay_status u = Some st" and "st \<noteq> []" and "pay_status p \<noteq> Some st"
    and "hearingIdsMatchKeys s"
  shows "map_option pay_hearingId (getPayment (snd (updatePayment i u s)) i) = Some newHearingId
     \<and> getHearing (snd (updatePayment i u s)) (pay_hearingId p)
         = map_option (\<lambda>e. e\<lparr> hear_paymentStatus := Some st \<rparr>) (getHearing s (pay_hearingId p))
     \<and> getHearing (snd (updatePayment i u s)) newHearingId = getHearing s newHearingId"
proof -
  have g: "propagates p u"
    using assms(4-6) by (auto simp: propagates_iff)
  have 1: "map_option pay_hearingId (getPayment (snd (updatePayment i u s)) i)
      = Some newHearingId"
    using assms(1,2)
    by (simp add: updatePayment_def getPayment_def Let_def Map_get_set mergePayment_def
          spread_def split: option.split)
  show ?thesis
    using 1 updatePayment_hearings_consistent [OF assms(1) g assms(7)] assms(3,4) by simp
qed

text \<open>
  Two hearings, a pending payment of the first. Moving the payment to the second
  hearing and marking it paid in one update marks the first hearing paid and leaves the
  second as it was.
\<close>

lemma updatePayment_targets_old_hearing_example:
  "hearingIdsMatchKeys pendingPaymentStore
   \<and> getPayment pendingPaymentStore 1 = Some storedPayment
   \<and> pay_hearingId storedPayment = 1
   \<and> map_option pay_hearingId
        (getPayment (snd (updatePayment 1 moveAndPayChange pendingPaymentStore)) 1) = Some 2
   \<and> getHearing (snd (updatePayment 1 moveAndPayChange pendingPaymentStore)) 1
       = Some (storedHearing \<lparr> hear_paymentStatus := Some ''paid'' \<rparr>)
   \<and> getHearing (snd (updatePayment 1 moveAndPayChange pendingPaymentStore)) 2
       = getHearing pendingPaymentStore 2"
proof -
  have m: "hearingIdsMatchKeys pendingPaymentStore"
    by code_simp
  have p: "getPayment pendingPaymentStore 1 = Some storedPayment"
    by code_simp
  have v: "pay_hearingId storedPayment = 1"
    by code_simp
  have u: "ppay_hearingId moveAndPayChange = Some 2" "2 \<noteq> pay_hearingId storedPayment"
    "ppay_status moveAndPayChange = Some ''paid''" "''paid'' \<noteq> []"
    "pay_status storedPayment \<noteq> Some ''paid''"
    by code_simp+
  have h: "getHearing pendingPaymentStore 1 = Some storedHearing"
    by code_simp
  note T = updatePayment_targets_old_hearing [OF p u m, unfolded v h option.map]
  show ?thesis
    using m p v T by blast
qed

text \<open>
  Claim C9 fails on the code when the new status is the empty string. Two hearings, each
  stored under its \<^verbatim>\<open>id\<close>, and a pending payment of the first, which mirrors pending.
  One update moves the payment to the second hearing and sets its status to the empty
  string. The payment then refers to hearing 2 and has the empty status, a status
  different from the stored one, and the hearing under the old \<^verbatim>\<open>hearingId\<close> is still
  at pending, through the store method and through the \<^verbatim>\<open>PUT\<close> handler alike: the
  guard of \<^verbatim>\<open>updatePayment\<close> tests the new status for truthiness.
\<close>

theorem updatePayment_move_with_empty_status:
  "hearingIdsMatchKeys pendingPaymentStore
   \<and> map_option pay_hearingId (getPayment pendingPaymentStore 1) = Some 1
   \<and> map_option pay_status (getPayment pendingPaymentStore 1) = Some (Some ''pending'')
   \<and> map_option hear_paymentStatus (getHearing pendingPaymentStore 1) = Some (Some ''pending'')
   \<and> map_option hear_id (getHearing pendingPaymentStore 2) = Some 2
   \<and> ppay_hearingId moveAndClearChange = Some 2
   \<and> ppay_status moveAndClearChange = Some []
   \<and> map_option pay_hearingId
        (getPayment (snd (updatePayment 1 moveAndClearChange pendingPaymentStore)) 1) = Some 2
   \<and> map_option pay_status
        (getPayment (snd (updatePayment 1 moveAndClearChange pendingPaymentStore)) 1)
       = Some (Some [])
   \<and> map_option hear_paymentStatus
        (getHearing (snd (updatePayment 1 moveAndClearChange pendingPaymentStore)) 1)
       = Some (Some ''pending'')
   \<and> map_option hear_paymentStatus
        (getHearing (snd (putPayment (Some 1) (Inr moveAndClearChange) pendingPaymentStore)) 1)
       = Some (Some ''pending'')"
  by (simp add: example_defs store_eval Map_eval hearingIdsMatchKeys_def putPayment_def)

subsection \<open>Recording a minutes upload\<close>

lemma mergeHearing_minutesChange:
  "mergeHearing e (minutesChange url)
     = e\<lparr> hear_status := Some ''completed'', hear_minutesUploaded := True,
           hear_minutesUrl := Some url \<rparr>"
  by (cases e) (simp add: mergeHearing_def minutesChange_def noHearingChange_def spread_def
        spreadOpt_def)

lemma mergeTask_completedChange:
  "mergeTask t completedChange = t\<lparr> task_status := Some ''completed'' \<rparr>"
  by (cases t) (simp add: mergeTask_def completedChange_def noTaskChange_def spread_def
        spreadOpt_def)

lemma updateHearing_tasks: "tasks (snd (updateHearing i p s)) = tasks s"
  by (simp add: updateHearing_def Let_def split: option.split)

lemma updateTask_hearings: "getHearing (snd (updateTask i p s)) k = getHearing s k"
  by (simp add: updateTask_def getHearing_def Let_def split: option.split)

lemma getTask_updateTask:
  assumes "getTask s i = Some e"
  shows "getTask (snd (updateTask i p s)) k
           = (if k = i then Some (mergeTask e p) else getTask s k)"
  using assms by (simp add: updateTask_def getTask_def Let_def Map_get_set)

text \<open>
  In a store whose tasks carry their keys as \<^verbatim>\<open>id\<close>, the task that \<^verbatim>\<open>find\<close> returns is
  the one stored under its \<^verbatim>\<open>id\<close>.
\<close>

lemma first_task_stored_under_id:
  assumes "taskIdsMatchKeys s" "find P (getTasks s) = Some t"
  shows "getTask s (task_id t) = Some t"
proof -
  have "t \<in> set (Map_values (tasks s))"
    using assms(2) by (auto simp: getTasks_def find_Some_iff)
  then obtain k where "Map_get (tasks s) k = Some t"
    by (auto simp: Map_values_entry)
  then show ?thesis using assms(1) by (auto simp: taskIdsMatchKeys_iff getTask_def)
qed

lemma postHearingMinutes_present:
  assumes "getHearing s h = Some e"
  shows "postHearingMinutes (Some h) (Some f) s
     = (let s1 = snd (updateHearing h (minutesChange (''/uploads/'' @ f)) s)
        in (Response 200 (HearingBody (mergeHearing e (minutesChange (''/uploads/'' @ f)))),
            case find (isPendingTask ''upload_minutes'' h) (getTasks s) of
              None \<Rightarrow> s1
            | Some mt \<Rightarrow> snd (updateTask (task_id mt) completedChange s1)))"
  using assms
  by (simp add: postHearingMinutes_def updateHearing_def getTasks_def Let_def
        split: option.split)

lemma postHearingMinutes_store:
  assumes "getHearing s h = Some e"
  shows "snd (postHearingMinutes (Some h) (Some f) s)
     = (case find (isPendingTask ''upload_minutes'' h) (getTasks s) of
          None \<Rightarrow> snd (updateHearing h (minutesChange (''/uploads/'' @ f)) s)
        | Some mt \<Rightarrow>
            snd (updateTask (task_id mt) completedChange
                  (snd (updateHearing h (minutesChange (''/uploads/'' @ f)) s))))"
  unfolding postHearingMinutes_present [OF assms] Let_def by simp

lemma postHearingMinutes_hearings:
  assumes "getHearing s h = Some e"
  shows "getHearing (snd (postHearingMinutes (Some h) (Some f) s)) k
     = (if k = h then Some (mergeHearing e (minutesChange (''/uploads/'' @ f)))
        else getHearing s k)"
proof -
  define c :: "'a PartialHearing" where "c = minutesChange (''/uploads/'' @ f)"
  define s1 where "s1 = snd (updateHearing h c s)"
  have g: "getHearing s1 k = (if k = h then Some (mergeHearing e c) else getHearing s k)"
    unfolding s1_def by (rule getHearing_updateHearing [OF assms])
  have "getHearing (snd (postHearingMinutes (Some h) (Some f) s)) k = getHearing s1 k"
    unfolding postHearingMinutes_store [OF assms] c_def [symmetric] s1_def [symmetric]
    by (simp add: updateTask_hearings split: option.split)
  then show ?thesis unfolding g c_def .
qed

lemma postHearingMinutes_no_task:
  assumes "getHearing s h = Some e"
    and "find (isPendingTask ''upload_minutes'' h) (getTasks s) = None"
  shows "tasks (snd (postHearingMinutes (Some h) (Some f) s)) = tasks s"
  unfolding postHearingMinutes_store [OF assms(1)] assms(2)
  by (simp add: updateHearing_tasks)

lemma postHearingMinutes_task:
  assumes "getHearing s h = Some e" and "taskIdsMatchKeys s"
    and "find (isPendingTask ''upload_minutes'' h) (getTasks s) = Some mt"
  shows "getTask (snd (postHearingMinutes (Some h) (Some f) s)) t
     = (if t = task_id mt then Some (mt\<lparr> task_status := Some ''completed'' \<rparr>)
        else getTask s t)"
proof -
  define s1 where "s1 = snd (updateHearing h (minutesChange (''/uploads/'' @ f)) s)"
  have t1: "tasks s1 = tasks s"
    unfolding s1_def by (rule updateHearing_tasks)
  have "getTask s (task_id mt) = Some mt"
    using first_task_stored_under_id [OF assms(2,3)] .
  then have "getTask s1 (task_id mt) = Some mt"
    by (simp add: getTask_def t1)
  from getTask_updateTask [OF this, of completedChange t]
  have "getTask (snd (updateTask (task_id mt) completedChange s1)) t
      = (if t = task_id mt then Some (mt\<lparr> task_status := Some ''completed'' \<rparr>)
         else getTask s t)"
    by (simp add: mergeTask_completedChange getTask_def t1)
  then show ?thesis
    unfolding postHearingMinutes_store [OF assms(1)] assms(3) s1_def by simp
qed

text \<open>
  Claim C3, as amended. For a hearing identifier \<open>h\<close>: with no file the handler answers
  400 (no file uploaded) and with a file but no hearing stored under \<open>h\<close> it answers 404
  (hearing not found), in both cases leaving the store as it was. With a file \<open>f\<close> and a
  hearing stored under \<open>h\<close> it answers with, and stores under \<open>h\<close>, that hearing with
  \<^verbatim>\<open>minutesUploaded\<close> true, \<^verbatim>\<open>minutesUrl\<close> the path of the stored file and \<^verbatim>\<open>status\<close>
  completed, and leaves every other hearing as it was. If no task is pending with type
  \<^verbatim>\<open>upload_minutes\<close> and \<^verbatim>\<open>relatedId\<close> \<open>h\<close>, no task changes. Otherwise, in a store whose
  tasks carry their keys as \<^verbatim>\<open>id\<close>, the first such task in the order of the map gets
  status completed and every other task is as it was.
\<close>

theorem postHearingMinutes_effect:
  "postHearingMinutes (Some h) None s = (Response 400 (ErrorBody ''No file uploaded''), s)
   \<and> (getHearing s h = None \<longrightarrow>
        postHearingMinutes (Some h) (Some f) s
          = (Response 404 (ErrorBody ''Hearing not found''), s))
   \<and> (getHearing s h = Some e \<longrightarrow>
        fst (postHearingMinutes (Some h) (Some f) s)
          = Response 200 (HearingBody (e\<lparr> hear_status := Some ''completed'',
              hear_minutesUploaded := True, hear_minutesUrl := Some (''/uploads/'' @ f) \<rparr>))
        \<and> getHearing (snd (postHearingMinutes (Some h) (Some f) s)) k
            = (if k = h
               then Some (e\<lparr> hear_status := Some ''completed'', hear_minutesUploaded := True,
                              hear_minutesUrl := Some (''/uploads/'' @ f) \<rparr>)
               else getHearing s k))
   \<and> (getHearing s h = Some e
        \<and> find (isPendingTask ''upload_minutes'' h) (getTasks s) = None \<longrightarrow>
        tasks (snd (postHearingMinutes (Some h) (Some f) s)) = tasks s)
   \<and> (getHearing s h = Some e \<and> taskIdsMatchKeys s
        \<and> find (isPendingTask ''upload_minutes'' h) (getTasks s) = Some mt \<longrightarrow>
        getTask (snd (postHearingMinutes (Some h) (Some f) s)) t
          = (if t = task_id mt then Some (mt\<lparr> task_status := Some ''completed'' \<rparr>)
             else getTask s t))"
proof (intro conjI impI)
  show "postHearingMinutes (Some h) None s = (Response 400 (ErrorBody ''No file uploaded''), s)"
    by (simp add: postHearingMinutes_def)
next
  assume "getHearing s h = None"
  then show "postHearingMinutes (Some h) (Some f) s
      = (Response 404 (ErrorBody ''Hearing not found''), s)"
    by (simp add: postHearingMinutes_def)
next
  assume e: "getHearing s h = Some e"
  show "fst (postHearingMinutes (Some h) (Some f) s)
      = Response 200 (HearingBody (e\<lparr> hear_status := Some ''completed'',
          hear_minutesUploaded := True, hear_minutesUrl := Some (''/uploads/'' @ f) \<rparr>))"
    unfolding postHearingMinutes_present [OF e] Let_def mergeHearing_minutesChange by simp
  show "getHearing (snd (postHearingMinutes (Some h) (Some f) s)) k
      = (if k = h
         then Some (e\<lparr> hear_status := Some ''completed'', hear_minutesUploaded := True,
                        hear_minutesUrl := Some (''/uploads/'' @ f) \<rparr>)
         else getHearing s k)"
    unfolding postHearingMinutes_hearings [OF e] mergeHearing_minutesChange ..
next
  assume "getHearing s h = Some e
      \<and> find (isPendingTask ''upload_minutes'' h) (getTasks s) = None"
  then show "tasks (snd (postHearingMinutes (Some h) (Some f) s)) = tasks s"
    using postHearingMinutes_no_task [of s h e f] by simp
next
  assume "getHearing s h = Some e \<and> taskIdsMatchKeys s
      \<and> find (isPendingTask ''upload_minutes'' h) (getTasks s) = Some mt"
  then show "getTask (snd (postHearingMinutes (Some h) (Some f) s)) t
      = (if t = task_id mt then Some (mt\<lparr> task_status := Some ''completed'' \<rparr>)
         else getTask s t)"
    using postHearingMinutes_task [of s h e mt f t] by simp
qed

text \<open>
  A store with one hearing, its pending upload task and a pending task of another
  type, each task carrying its key. Uploading \<^verbatim>\<open>ata.pdf\<close> for the hearing completes the
  hearing and the upload task and leaves the other task; an upload for identifier 9,
  under which no hearing is stored, answers 404 and leaves the store.
\<close>

theorem postHearingMinutes_effect_witness:
  "getHearing minutesStore 9 = None
   \<and> postHearingMinutes (Some 9) (Some ''ata.pdf'') minutesStore
       = (Response 404 (ErrorBody ''Hearing not found''), minutesStore)
   \<and> getHearing minutesStore 1 = Some createdHearing
   \<and> taskIdsMatchKeys minutesStore
   \<and> find (isPendingTask ''upload_minutes'' 1) (getTasks minutesStore) = Some storedTask
   \<and> getHearing (snd (postHearingMinutes (Some 1) (Some ''ata.pdf'') minutesStore)) 1
       = Some (createdHearing \<lparr> hear_status := Some ''completed'',
            hear_minutesUploaded := True, hear_minutesUrl := Some ''/uploads/ata.pdf'' \<rparr>)
   \<and> getTask (snd (postHearingMinutes (Some 1) (Some ''ata.pdf'') minutesStore)) 1
       = Some (storedTask \<lparr> task_status := Some ''completed'' \<rparr>)
   \<and> getTask (snd (postHearingMinutes (Some 1) (Some ''ata.pdf'') minutesStore)) 2
       = getTask minutesStore 2"
proof -
  have h9: "getHearing minutesStore 9 = None"
    and h1: "getHearing minutesStore 1 = Some createdHearing"
    and m: "taskIdsMatchKeys minutesStore"
    and t: "find (isPendingTask ''upload_minutes'' 1) (getTasks minutesStore) = Some storedTask"
    and i: "task_id storedTask = 1"
    by code_simp+
  note T9 = postHearingMinutes_effect [where s = minutesStore and h = 9 and f = "''ata.pdf''"]
  note T1 = postHearingMinutes_effect [where s = minutesStore and h = 1 and f = "''ata.pdf''"
      and e = createdHearing and mt = storedTask and k = 1]
  note absent = T9 [THEN conjunct2, THEN conjunct1, THEN mp, OF h9]
  note hearing = T1 [THEN conjunct2, THEN conjunct2, THEN conjunct1, THEN mp, OF h1,
      THEN conjunct2]
  note task = T1 [THEN conjunct2, THEN conjunct2, THEN conjunct2, THEN conjunct2, THEN mp,
      OF conjI [OF h1 conjI [OF m t]], unfolded i]
  have u: "''/uploads/'' @ ''ata.pdf'' = ''/uploads/ata.pdf''"
    by simp
  show ?thesis
    using h9 absent h1 m t hearing [unfolded u] task [of 1] task [of 2] by simp
qed

text \<open>
  Claim C3 as stated fails in two places. With no file the handler reports a bad
  request, not not-found, although the hearing exists. And in a store where an update
  has given the pending upload task of hearing 1, stored under 1, the \<^verbatim>\<open>id\<close> 2, an upload
  for hearing 1 completes the task stored under 2, a pending task of another type, and
  leaves the upload task pending.
\<close>

theorem postHearingMinutes_counterexample:
  "getHearing oneHearingStore 1 \<noteq> None
   \<and> fst (postHearingMinutes (Some 1) None oneHearingStore)
       = Response 400 (ErrorBody ''No file uploaded'')
   \<and> map_option task_type (getTask renumberedTaskStore 1) = Some ''upload_minutes''
   \<and> map_option task_id (getTask renumberedTaskStore 1) = Some 2
   \<and> map_option task_type (getTask renumberedTaskStore 2) = Some ''assign_professional''
   \<and> map_option task_status (getTask renumberedTaskStore 2) = Some (Some ''pending'')
   \<and> map_option task_status
        (getTask (snd (postHearingMinutes (Some 1) (Some ''ata.pdf'') renumberedTaskStore)) 1)
       = Some (Some ''pending'')
   \<and> map_option task_status
        (getTask (snd (postHearingMinutes (Some 1) (Some ''ata.pdf'') renumberedTaskStore)) 2)
       = Some (Some ''completed'')"
  by (simp add: example_defs store_eval Map_eval postHearingMinutes_def)

subsection \<open>Creating a payment through the route\<close>

lemma createPayment_tasks: "tasks (snd (createPayment now d s)) = tasks s"
  by (simp add: createPayment_def Let_def split: option.split)

text \<open>
  The \<^verbatim>\<open>POST\<close> handler, unlike the \<^verbatim>\<open>PUT\<close> handler, completes a task: in a store whose
  tasks carry their keys as \<^verbatim>\<open>id\<close>, the first pending task of type \<^verbatim>\<open>payment\<close> whose
  \<^verbatim>\<open>relatedId\<close> is the payment's hearing, and no other.
\<close>

lemma postPayment_task:
  assumes "taskIdsMatchKeys s"
    and "find (isPendingTask ''payment'' (ipay_hearingId d)) (getTasks s) = Some pt"
  shows "getTask (snd (postPayment now (Inr d) s)) t
     = (if t = task_id pt then Some (pt\<lparr> task_status := Some ''completed'' \<rparr>)
        else getTask s t)"
proof -
  define s1 where "s1 = snd (createPayment now d s)"
  have t1: "tasks s1 = tasks s"
    unfolding s1_def by (rule createPayment_tasks)
  have "getTask s (task_id pt) = Some pt"
    using first_task_stored_under_id [OF assms] .
  then have "getTask s1 (task_id pt) = Some pt"
    by (simp add: getTask_def t1)
  from getTask_updateTask [OF this, of completedChange t]
  have "getTask (snd (updateTask (task_id pt) completedChange s1)) t
      = (if t = task_id pt then Some (pt\<lparr> task_status := Some ''completed'' \<rparr>)
         else getTask s t)"
    by (simp add: mergeTask_completedChange getTask_def t1)
  moreover have "snd (postPayment now (Inr d) s)
      = snd (updateTask (task_id pt) completedChange s1)"
    using assms(2) t1
    by (simp add: postPayment_def split_def Let_def getTasks_def s1_def)
  ultimately show ?thesis by simp
qed

subsection \<open>Calendar arithmetic\<close>

lemma div_step:
  fixes a k :: int
  assumes "0 < k"
  shows "(a + 1) div k = a div k + (if (a + 1) mod k = 0 then 1 else 0)"
proof (cases "(a + 1) mod k = 0")
  case True
  then obtain q where q: "a + 1 = k * q"
    by auto
  then have "a = k * (q - 1) + (k - 1)"
    by (simp add: algebra_simps)
  then have "a div k = q - 1"
    using assms by (intro int_div_pos_eq [where r = "k - 1"]) auto
  moreover have "(a + 1) div k = q"
    using q assms by simp
  ultimately show ?thesis
    using True by simp
next
  case False
  have r: "0 \<le> a mod k" "a mod k < k"
    using assms by simp_all
  have "a mod k + 1 \<noteq> k"
  proof
    assume "a mod k + 1 = k"
    then have "(a mod k + 1) mod k = 0"
      by simp
    then have "(a + 1) mod k = 0"
      by (simp add: mod_add_left_eq)
    with False show False ..
  qed
  with r have "a mod k + 1 < k"
    by simp
  moreover have "a + 1 = k * (a div k) + (a mod k + 1)"
    by simp
  ultimately have "(a + 1) div k = a div k"
    using r by (intro int_div_pos_eq [where r = "a mod k + 1"]) auto
  then show ?thesis
    using False by simp
qed

text \<open>The first day of a year is the first day of the year before it plus its days.\<close>

lemma DayFromYear_Suc: "DayFromYear (y + 1) = DayFromYear y + DaysInYear y"
proof -
  have s: "y + 1 - 1969 = y - 1969 + 1" "y + 1 - 1901 = y - 1901 + 1"
    "y + 1 - 1601 = y - 1601 + 1"
    by simp_all
  have e: "y - 1969 + 1 = y + 4 * (- 492)" "y - 1901 + 1 = y + 100 * (- 19)"
    "y - 1601 + 1 = y + 400 * (- 4)"
    by simp_all
  have c: "(y - 1969 + 1) mod 4 = y mod 4" "(y - 1901 + 1) mod 100 = y mod 100"
    "(y - 1601 + 1) mod 400 = y mod 400"
    unfolding e by (rule mod_mult_self2)+
  have "(4::int) dvd 100" "(100::int) dvd 400"
    by simp_all
  then have m: "y mod 100 = 0 \<Longrightarrow> y mod 4 = 0" "y mod 400 = 0 \<Longrightarrow> y mod 100 = 0"
    by (meson dvd_trans mod_eq_0_iff_dvd)+
  have p: "(0::int) < 4" "(0::int) < 100" "(0::int) < 400"
    by simp_all
  note d = div_step [OF p(1), of "y - 1969", unfolded c(1)]
    div_step [OF p(2), of "y - 1901", unfolded c(2)]
    div_step [OF p(3), of "y - 1601", unfolded c(3)]
  define a b c where "a = (y - 1969) div 4" and "b = (y - 1901) div 100"
    and "c = (y - 1601) div 400"
  have "DayFromYear (y + 1)
      = 365 * (y - 1970) + 365 + (a + (if y mod 4 = 0 then 1 else 0))
          - (b + (if y mod 100 = 0 then 1 else 0)) + (c + (if y mod 400 = 0 then 1 else 0))"
    unfolding DayFromYear_def s d a_def b_def c_def by simp
  moreover have "DayFromYear y = 365 * (y - 1970) + a - b + c"
    unfolding DayFromYear_def a_def b_def c_def ..
  moreover have "DaysInYear y
      = 365 + (if y mod 4 = 0 then 1 else 0) - (if y mod 100 = 0 then 1 else 0)
          + (if y mod 400 = 0 then 1 else 0)"
    unfolding DaysInYear_def using m by (simp split: if_splits)
  ultimately show ?thesis
    by (simp only: algebra_simps)
qed

lemma MakeDay_date: "MakeDay y m (dt - n) = MakeDay y m dt - n"
  by (simp add: MakeDay_def Let_def)

lemma firstDayWithinYear_next:
  assumes "0 \<le> mn" "mn < 11"
  shows "firstDayWithinYear y (mn + 1) = firstDayWithinYear y mn + DaysInMonth y mn"
proof -
  from assms have "mn = 0 \<or> mn = 1 \<or> mn = 2 \<or> mn = 3 \<or> mn = 4 \<or> mn = 5 \<or> mn = 6 \<or> mn = 7
      \<or> mn = 8 \<or> mn = 9 \<or> mn = 10"
    by arith
  then show ?thesis
    by (elim disjE) (simp_all add: firstDayWithinYear_def DaysInMonth_def)
qed

lemma DaysInMonth_bounds: "28 \<le> DaysInMonth y mn \<and> DaysInMonth y mn \<le> 31"
  by (simp add: DaysInMonth_def InLeapYear_def)

text \<open>
  For a month of \<open>0\<close> to \<open>11\<close>, \<^verbatim>\<open>MakeDay\<close> of the month before is \<^verbatim>\<open>MakeDay\<close> of the
  same date in the previous calendar month, and lies as many days earlier as that month
  has.
\<close>

lemma MakeDay_previousMonth:
  assumes "0 \<le> date_month d" "date_month d \<le> 11"
  shows "MakeDay (date_year d) (date_month d - 1) dt
     = MakeDay (fst (previousMonth d)) (snd (previousMonth d)) dt"
proof (cases "date_month d = 0")
  case True
  then show ?thesis
    by (simp add: MakeDay_def previousMonth_def)
next
  case False
  with assms have "date_month d div 12 = 0" "date_month d mod 12 = date_month d"
    "(date_month d - 1) div 12 = 0" "(date_month d - 1) mod 12 = date_month d - 1"
    by auto
  then show ?thesis
    using False by (simp add: MakeDay_def previousMonth_def)
qed

lemma MakeDay_month_before:
  assumes "0 \<le> date_month d" "date_month d \<le> 11"
  shows "MakeDay (date_year d) (date_month d - 1) dt
     = MakeDay (date_year d) (date_month d) dt - daysInPreviousMonth d"
proof (cases "date_month d = 0")
  case True
  have "DayFromYear (date_year d) = DayFromYear (date_year d - 1) + DaysInYear (date_year d - 1)"
    using DayFromYear_Suc [of "date_year d - 1"] by simp
  moreover have "DaysInYear (date_year d - 1) = 365 \<or> DaysInYear (date_year d - 1) = 366"
    by (simp add: DaysInYear_def)
  ultimately show ?thesis
    using True
    by (auto simp: MakeDay_def Let_def previousMonth_def daysInPreviousMonth_def
          firstDayWithinYear_def DaysInMonth_def InLeapYear_def)
next
  case False
  with assms have m: "0 \<le> date_month d - 1" "date_month d - 1 < 11"
    by auto
  have "date_month d div 12 = 0" "date_month d mod 12 = date_month d"
    "(date_month d - 1) div 12 = 0" "(date_month d - 1) mod 12 = date_month d - 1"
    using assms False by auto
  then show ?thesis
    using False firstDayWithinYear_next [OF m, of "date_year d"]
    by (simp add: MakeDay_def Let_def previousMonth_def daysInPreviousMonth_def)
qed

text \<open>
  \<^verbatim>\<open>setDate(getDate() - 7)\<close> is the local time seven days of 24 hours earlier, taken to
  UTC. In a zone of fixed offset that is the instant seven days of 24 hours earlier.
\<close>

lemma setDate_week: "setDate tza now (getDate now - 7) = UTC tza (LocalTime now - days 7)"
  by (simp add: setDate_def getDate_def LocalTime_def MakeDate_def MakeDay_date days_def
        algebra_simps)

lemma setDate_week_fixed_offset:
  "setDate (\<lambda>t. c) now (getDate now - 7) = getTime (\<lambda>t. c) now - days 7"
  by (simp add: setDate_week UTC_def getTime_def)

text \<open>
  \<^verbatim>\<open>setMonth(getMonth() - 1)\<close> is the local time as many days earlier as the previous
  calendar month has, taken to UTC.
\<close>

lemma setMonth_month_before:
  assumes "0 \<le> date_month now" "date_month now \<le> 11"
  shows "setMonth tza now (getMonth now - 1)
     = UTC tza (LocalTime now - days (daysInPreviousMonth now))"
  by (simp add: setMonth_def getMonth_def LocalTime_def MakeDate_def days_def
        MakeDay_month_before [OF assms] algebra_simps)

text \<open>
  When the previous calendar month has the date of \<open>now\<close>, that is the same date and the
  same time of day of the previous calendar month.
\<close>

lemma setMonth_same_date:
  assumes "validDate now" and "date_date now \<le> daysInPreviousMonth now"
  shows "setMonth tza now (getMonth now - 1)
           = getTime tza (now\<lparr> date_year := fst (previousMonth now),
                                date_month := snd (previousMonth now) \<rparr>)"
    and "validDate (now\<lparr> date_year := fst (previousMonth now),
                          date_month := snd (previousMonth now) \<rparr>)"
proof -
  have m: "0 \<le> date_month now" "date_month now \<le> 11"
    using assms(1) by (simp_all add: validDate_def)
  show "setMonth tza now (getMonth now - 1)
      = getTime tza (now\<lparr> date_year := fst (previousMonth now),
                           date_month := snd (previousMonth now) \<rparr>)"
    by (simp add: setMonth_def getMonth_def getTime_def LocalTime_def
          MakeDay_previousMonth [OF m])
  show "validDate (now\<lparr> date_year := fst (previousMonth now),
                        date_month := snd (previousMonth now) \<rparr>)"
    using assms by (auto simp: validDate_def previousMonth_def daysInPreviousMonth_def)
qed

text \<open>
  When the previous calendar month is shorter than the date of \<open>now\<close>, on the 29th to
  the 31st, it is a date of the month of \<open>now\<close> itself: the date of \<open>now\<close> less the
  length of the previous month.
\<close>

lemma setMonth_overflow:
  assumes "validDate now" and "daysInPreviousMonth now < date_date now"
  shows "setMonth tza now (getMonth now - 1)
           = getTime tza (now\<lparr> date_date := date_date now - daysInPreviousMonth now \<rparr>)"
    and "validDate (now\<lparr> date_date := date_date now - daysInPreviousMonth now \<rparr>)"
proof -
  have m: "0 \<le> date_month now" "date_month now \<le> 11"
    using assms(1) by (simp_all add: validDate_def)
  show "setMonth tza now (getMonth now - 1)
      = getTime tza (now\<lparr> date_date := date_date now - daysInPreviousMonth now \<rparr>)"
    by (simp add: setMonth_def getMonth_def getTime_def LocalTime_def
          MakeDay_month_before [OF m] MakeDay_date)
  have "28 \<le> daysInPreviousMonth now"
    and "date_date now \<le> 31"
    and "28 \<le> DaysInMonth (date_year now) (date_month now)"
    using assms(1) DaysInMonth_bounds [of "date_year now" "date_month now"]
      DaysInMonth_bounds [of "fst (previousMonth now)" "snd (previousMonth now)"]
    by (simp_all add: validDate_def daysInPreviousMonth_def)
  then show "validDate (now\<lparr> date_date := date_date now - daysInPreviousMonth now \<rparr>)"
    using assms by (simp add: validDate_def)
qed

subsection \<open>The financial summary\<close>

text \<open>
  \<open>sumAmounts\<close> adds the amounts from left to right, starting from \<open>0\<close>, as the
  \<^verbatim>\<open>reduce\<close> of the source does. Where addition is associative with \<open>0\<close> neutral, that
  is the sum of the amounts.
\<close>

lemma sumAmounts_sum_list:
  "sumAmounts (ps :: ('n::monoid_add) Payment list) = sum_list (map pay_amount ps)"
proof -
  have "foldl (\<lambda>sum payment. sum + pay_amount payment) a ps = a + sum_list (map pay_amount ps)"
    for a :: 'n
    by (induction ps arbitrary: a) (simp_all add: add.assoc)
  then show ?thesis by (simp add: sumAmounts_def)
qed

text \<open>
  The payments that the summary selects. For the week they are the payments created at
  or after the local time seven days before now; for the month, those created at or
  after the local time as many days before now as the previous calendar month has; for
  every other period, \<^verbatim>\<open>year\<close> included, all payments.
\<close>

lemma filteredPayments_week:
  "filteredPayments tza now ''week'' ps
     = filter (\<lambda>p. UTC tza (LocalTime now - days 7) \<le> pay_createdAt p) ps"
  by (simp add: filteredPayments_def setDate_week)

lemma filteredPayments_month:
  assumes "0 \<le> date_month now" "date_month now \<le> 11"
  shows "filteredPayments tza now ''month'' ps
     = filter (\<lambda>p. UTC tza (LocalTime now - days (daysInPreviousMonth now)) \<le> pay_createdAt p) ps"
  by (simp add: filteredPayments_def setMonth_month_before [OF assms])

lemma filteredPayments_other:
  "period \<noteq> ''week'' \<Longrightarrow> period \<noteq> ''month'' \<Longrightarrow> filteredPayments tza now period ps = ps"
  by (simp add: filteredPayments_def)

text \<open>
  The summary adds the amounts of the selected payments: all of them for \<^verbatim>\<open>total\<close>,
  those with status pending for \<^verbatim>\<open>pending\<close>, those with status paid for \<^verbatim>\<open>paid\<close>. A call
  without a period is a call for the month.
\<close>

lemma getFinancialSummary_sums:
  "getFinancialSummary tza now (Some period) s
     = \<lparr> total = sumAmounts (filteredPayments tza now period (getPayments s)),
         pending = sumAmounts (filter (\<lambda>p. pay_status p = Some ''pending'')
            (filteredPayments tza now period (getPayments s))),
         paid = sumAmounts (filter (\<lambda>p. pay_status p = Some ''paid'')
            (filteredPayments tza now period (getPayments s))) \<rparr>"
  by (simp add: getFinancialSummary_def Let_def getPayments_def)

lemma getFinancialSummary_default:
  "getFinancialSummary tza now None s = getFinancialSummary tza now (Some ''month'') s"
  by (simp add: getFinancialSummary_def)

lemma getFinancialSummary_other:
  assumes "period \<noteq> ''week''" "period \<noteq> ''month''"
  shows "getFinancialSummary tza now (Some period) s
     = \<lparr> total = sumAmounts (getPayments s),
         pending = sumAmounts (filter (\<lambda>p. pay_status p = Some ''pending'') (getPayments s)),
         paid = sumAmounts (filter (\<lambda>p. pay_status p = Some ''paid'') (getPayments s)) \<rparr>"
  by (simp add: getFinancialSummary_sums filteredPayments_other [OF assms])

text \<open>
  The week. As long as the offset of the zone shifts by no more than a day within the
  week, as it does in a zone of fixed offset and across a daylight-saving change, a
  payment created ten days of 24 hours before now is not selected and a stored payment
  created two days before now is.
\<close>

lemma week_ten_days_two_days:
  assumes "\<bar>tza (LocalTime now) - tza (LocalTime now - days 7)\<bar> \<le> days 1"
  shows "pay_createdAt p = getTime tza now - days 10
           \<Longrightarrow> p \<notin> set (filteredPayments tza now ''week'' ps)"
    and "pay_createdAt p = getTime tza now - days 2 \<Longrightarrow> p \<in> set ps
           \<Longrightarrow> p \<in> set (filteredPayments tza now ''week'' ps)"
proof -
  define a b where "a = tza (LocalTime now)" and "b = tza (LocalTime now - days 7)"
  have d: "a - b \<le> 86400000" "b - a \<le> 86400000"
    using assms by (simp_all add: a_def b_def days_def msPerDay_def abs_le_iff)
  have n: "getTime tza now = LocalTime now - a"
    and w: "UTC tza (LocalTime now - days 7) = LocalTime now - 604800000 - b"
    by (simp_all add: getTime_def UTC_def a_def b_def days_def msPerDay_def)
  show "pay_createdAt p = getTime tza now - days 10
      \<Longrightarrow> p \<notin> set (filteredPayments tza now ''week'' ps)"
    unfolding filteredPayments_week n w using d by (simp add: days_def msPerDay_def)
  show "pay_createdAt p = getTime tza now - days 2 \<Longrightarrow> p \<in> set ps
      \<Longrightarrow> p \<in> set (filteredPayments tza now ''week'' ps)"
    unfolding filteredPayments_week n w using d by (simp add: days_def msPerDay_def)
qed

lemma week_ten_days_two_days_fixed_offset:
  "pay_createdAt p = getTime (\<lambda>t. c) now - days 10
     \<Longrightarrow> p \<notin> set (filteredPayments (\<lambda>t. c) now ''week'' ps)"
  "pay_createdAt p = getTime (\<lambda>t. c) now - days 2 \<Longrightarrow> p \<in> set ps
     \<Longrightarrow> p \<in> set (filteredPayments (\<lambda>t. c) now ''week'' ps)"
  by (rule week_ten_days_two_days; simp add: days_def msPerDay_def)+

text \<open>
  The scenario of the specification, on a server in UTC at noon of 31 March 2025: the
  summary for the week leaves out the payment created ten days ago and counts the one
  created two days ago, the summary for the year counts both.
\<close>

lemma getFinancialSummary_week_scenario:
  "map pay_createdAt (getPayments twoPaymentStore)
     = [getTime utc march31 - days 10, getTime utc march31 - days 2]
   \<and> setDate utc march31 (getDate march31 - 7) = getTime utc march31 - days 7
   \<and> getFinancialSummary utc march31 (Some ''week'') twoPaymentStore
       = \<lparr> total = 300, pending = 0, paid = 300 \<rparr>
   \<and> getFinancialSummary utc march31 (Some ''year'') twoPaymentStore
       = \<lparr> total = 420, pending = 120, paid = 300 \<rparr>"
  by code_simp

text \<open>
  Claim C7 fails on the code for the month on the last days of a month that is longer
  than the one before it. A server in UTC holds a pending payment of 120 created at noon
  of 1 March 2025 and a paid payment of 300 created at noon of 30 March. At noon of
  31 March the first payment is thirty days old. \<^verbatim>\<open>setMonth(getMonth() - 1)\<close> asks for
  31 February, which \<^verbatim>\<open>MakeDay\<close> counts on to 3 March: the window of the month begins
  at noon of 3 March, and the summary for the month, asked for by name or by default,
  leaves the first payment out. One day later, at noon of 1 April, the window begins at
  noon of 1 March and the summary counts the first payment again.
\<close>

theorem getFinancialSummary_month_on_the_31st:
  "getTime utc march31 = 1743422400000
   \<and> map pay_createdAt (getPayments marchStore) = [getTime utc march1, getTime utc march30]
   \<and> getTime utc march1 = getTime utc march31 - days 30
   \<and> setMonth utc march31 (getMonth march31 - 1) = getTime utc march3
   \<and> getTime utc march3 = getTime utc march31 - days 28
   \<and> getFinancialSummary utc march31 (Some ''month'') marchStore
       = \<lparr> total = 300, pending = 0, paid = 300 \<rparr>
   \<and> getFinancialSummary utc march31 None marchStore
       = \<lparr> total = 300, pending = 0, paid = 300 \<rparr>
   \<and> setMonth utc april1 (getMonth april1 - 1) = getTime utc march1
   \<and> getFinancialSummary utc april1 (Some ''month'') marchStore
       = \<lparr> total = 420, pending = 120, paid = 300 \<rparr>"
  by code_simp

end
